theory Spec2Isabelle
  imports Main
begin

section \<open>Data model\<close>

text \<open>
  A \<open>string\<close> is JavaScript text in UTF-8. The characters the library looks for
  (\<open>(\<close>, \<open>)\<close>, \<open>,\<close>, \<open>=\<close>, \<open>?\<close>, \<open>*\<close>, letters, digits, \<open>_\<close> and
  \<open>$\<close>) are single bytes there and occur in no longer character; white space is
  the one place where longer characters matter (\<open>removeWhiteSpace\<close> below).

  JavaScript values as far as the injector looks at them. The library tests values for
  truthiness (\<open>if (x)\<close>, \<open>x || y\<close>) and for being \<open>undefined\<close>, reads the
  \<open>$filename\<close> property of a registered value, and otherwise passes values through.
  Numbers are integer valued here (\<open>NaN\<close> is left out). An object is the list of its
  own properties, each name once. Functions of the program are not part of \<open>jsval\<close>:
  a function that is registered is a factory (below), and a resolved factory handed to
  another factory is an argument of its own kind. \<open>VBuiltin n\<close> is the value that
  \<open>Object.prototype\<close> holds under the name \<open>n\<close>, which every plain object
  inherits: a built-in function, and for \<open>__proto__\<close> the prototype object itself.
\<close>

datatype jsval =
    VUndefined
  | VNull
  | VBool bool
  | VNum int
  | VStr string
  | VObj "(string \<times> jsval) list"
  | VBuiltin string

fun truthy :: "jsval \<Rightarrow> bool" where
  "truthy VUndefined = False"
| "truthy VNull = False"
| "truthy (VBool b) = b"
| "truthy (VNum n) = (n \<noteq> 0)"
| "truthy (VStr s) = (s \<noteq> [])"
| "truthy (VObj ps) = True"
| "truthy (VBuiltin n) = True"

text \<open>\<open>typeof v === 'function'\<close>.\<close>

fun isFunction :: "jsval \<Rightarrow> bool" where
  "isFunction (VBuiltin n) = (n \<noteq> ''__proto__'')"
| "isFunction v = False"

text \<open>
  The dictionaries of the library (\<open>registered\<close>, \<open>singletons\<close>, the argument bag
  of the runner, the placeholder options of the parser) are plain objects, made by
  \<open>{}\<close> or by an object literal with spreads and computed keys, and the library reads
  them with \<open>object[name]\<close>. A map holds the own properties of such an object; a
  name that is not an own property is found in \<open>Object.prototype\<close>, whose property
  names are these (ECMAScript with its Annex B, as Node.js implements it, in a program
  that has not added to the prototype). A computed key and a spread make own properties
  also under the name \<open>__proto__\<close>.
\<close>

definition objectPrototypeNames :: "string list" where
  "objectPrototypeNames =
     [''constructor'', ''__defineGetter__'', ''__defineSetter__'', ''hasOwnProperty'',
      ''__lookupGetter__'', ''__lookupSetter__'', ''isPrototypeOf'', ''propertyIsEnumerable'',
      ''toString'', ''valueOf'', ''__proto__'', ''toLocaleString'']"

text \<open>\<open>({})[name]\<close>.\<close>

definition inherited :: "string \<Rightarrow> jsval" where
  "inherited nm = (if nm \<in> set objectPrototypeNames then VBuiltin nm else VUndefined)"

text \<open>\<open>object[name]\<close> for a plain object with the own properties \<open>own\<close>.\<close>

definition readProperty :: "(string \<rightharpoonup> jsval) \<Rightarrow> string \<Rightarrow> jsval" where
  "readProperty own nm = (case own nm of Some v \<Rightarrow> v | None \<Rightarrow> inherited nm)"

text \<open>\<open>a || b\<close> on values.\<close>

definition orElse :: "jsval \<Rightarrow> jsval \<Rightarrow> jsval" where
  "orElse a b = (if truthy a then a else b)"

text \<open>\<open>v.$filename\<close> for a value \<open>v\<close> that is neither \<open>null\<close> nor
  \<open>undefined\<close>; no prototype has a property of that name.\<close>

fun filenameOf :: "jsval \<Rightarrow> jsval" where
  "filenameOf (VObj ps) = (case map_of ps ''$filename'' of Some v \<Rightarrow> v | None \<Rightarrow> VUndefined)"
| "filenameOf v = VUndefined"

text \<open>
  The typedef \<open>InjectionRequest\<close> of injector.js; a \<open>PlaceholderArgument\<close>
  (resolver.js) is such a request with \<open>isPlaceholder\<close> set, of which the runner reads
  \<open>name\<close> and \<open>isOptional\<close>.
\<close>

record injectionRequest =
  name :: string
  isOptional :: bool
  asFactory :: bool
  isPlaceholder :: bool

text \<open>One record of the resolve history (historyHelper.js).\<close>

record historyRecord =
  recName :: string
  filepath :: jsval
  registerSource :: jsval
  notFound :: bool

type_synonym history = "historyRecord list"

text \<open>
  Calling a factory. A factory body is JavaScript of the user's: it may change the world
  outside the injector, so a call takes the state of that world (of any type \<open>'w\<close>) and
  returns the new one with the produced value. An argument is a value or, for a
  dependency requested with \<open>()\<close>, a resolved factory that the body may call with
  values. Bodies are taken to return (they do not throw).
\<close>

datatype 'w arg =
    ArgValue jsval
  | ArgFactory "jsval list \<Rightarrow> 'w \<Rightarrow> jsval \<times> 'w"

text \<open>
  The typedef \<open>DecoratedFactory\<close> of resolver.js, as the registry and the resolver hold
  it: \<open>call\<close> is \<open>factory.apply(this, args)\<close>; the other fields are the decorators
  \<open>$inject\<close>, \<open>$singleton\<close>, \<open>$filename\<close>, \<open>$$registerSourceFile\<close>,
  \<open>$$placeholderArgs\<close>, \<open>$$isUndefined\<close> and \<open>$$isSingleton\<close>. A decorator that is
  not set is \<open>None\<close>, \<open>False\<close> or \<open>VUndefined\<close>.
\<close>

record 'w decoratedFactory =
  call :: "'w arg list \<Rightarrow> 'w \<Rightarrow> jsval \<times> 'w"
  inject :: "injectionRequest list option"
  singleton :: bool
  filename :: jsval
  registerSourceFile :: jsval
  placeholderArgs :: "injectionRequest list option"
  isUndefined :: bool
  isSingleton :: bool

text \<open>Errors thrown by the library; each carries what its message names and its trace.\<close>

datatype injectTemplateError =
    NonArrayInject
  | InvalidInjectIndexes "nat list"
  | NonArrayPlaceholders
  | InvalidPlaceholderIndexes "nat list"

datatype error =
    NoItemName
  | NotRegistered string history
  | CyclicDependency string history
  | MissingPlaceholder string string history
  | InjectError injectTemplateError string history
  | CouldNotParseArguments string history
  | CouldNotParseArgumentCount string history
  | CountMismatch nat string nat history
  | NoRegisterSource string history

text \<open>
  The outcome of a computation that calls factories: a value and the world after it, an
  exception and the world at the throw, or the model stopping. It stops where the depth
  budget of the resolver (below) is used up, and where the resolver takes the value that
  \<open>Object.prototype\<close> holds under a name for the factory registered under it: what
  the program does with that value is the host's, not the library's.
\<close>

datatype stop = OutOfFuel | InheritedFactory string

datatype ('a, 'w) outcome =
    Returned 'a 'w
  | Thrown error 'w
  | Stopped stop

section \<open>historyHelper.js\<close>

text \<open>
  \<open>addToHistory(history, itemName, resolvedFactory)\<close> reads \<open>$filename\<close>,
  \<open>$$registerSourceFile\<close> and \<open>$$isUndefined\<close> of its third argument, which is a
  factory or the empty object \<open>{}\<close>; the three are passed here.
\<close>

definition addToHistory :: "history \<Rightarrow> string \<Rightarrow> jsval \<times> jsval \<times> bool \<Rightarrow> history" where
  "addToHistory h itemName meta =
     (case meta of (fname, src, undef) \<Rightarrow>
        h @ [\<lparr>recName = itemName, filepath = orElse fname VNull,
               registerSource = orElse src VNull, notFound = undef\<rparr>])"

definition factoryMeta :: "'w decoratedFactory \<Rightarrow> jsval \<times> jsval \<times> bool" where
  "factoryMeta f = (filename f, registerSourceFile f, isUndefined f)"

definition emptyObjectMeta :: "jsval \<times> jsval \<times> bool" where
  "emptyObjectMeta = (VUndefined, VUndefined, False)"

section \<open>runner.js\<close>

text \<open>The resolve arguments as their JSDoc types them: not given, or an object from item
  names (and \<open>common\<close>) to objects of argument values.\<close>

type_synonym argSet = "string \<rightharpoonup> jsval"
type_synonym resolveArgs = "(string \<rightharpoonup> argSet) option"

text \<open>\<open>resolveArgs || {}\<close>, \<open>safeResolveArgs[itemName] || {}\<close> and
  \<open>safeResolveArgs.common || {}\<close>. Where the item name is not an own property of the
  resolve arguments but a name of \<open>Object.prototype\<close>, the value read is a built-in,
  which has no enumerable own property: spread into the bag it adds nothing, as
  \<open>{}\<close> does.\<close>

definition safeResolveArgs :: "resolveArgs \<Rightarrow> (string \<rightharpoonup> argSet)" where
  "safeResolveArgs ra = (case ra of None \<Rightarrow> Map.empty | Some m \<Rightarrow> m)"

definition argsForThisFactory :: "resolveArgs \<Rightarrow> string \<Rightarrow> argSet" where
  "argsForThisFactory ra itemName =
     (case safeResolveArgs ra itemName of None \<Rightarrow> Map.empty | Some a \<Rightarrow> a)"

definition argsForAllFactories :: "resolveArgs \<Rightarrow> argSet" where
  "argsForAllFactories ra =
     (case safeResolveArgs ra ''common'' of None \<Rightarrow> Map.empty | Some a \<Rightarrow> a)"

text \<open>\<open>{...argsForAllFactories, ...argsForThisFactory}\<close>: later spreads overwrite.\<close>

definition usableArgs :: "resolveArgs \<Rightarrow> string \<Rightarrow> argSet" where
  "usableArgs ra itemName = argsForAllFactories ra ++ argsForThisFactory ra itemName"

text \<open>\<open>usableArgs[name]\<close>: the bag is an object literal, so a name that is not a key
  of it is read from \<open>Object.prototype\<close>.\<close>

definition readArg :: "argSet \<Rightarrow> string \<Rightarrow> jsval" where
  "readArg bag k = readProperty bag k"

text \<open>
  The callback of \<open>placeholderArgs.map\<close>, run over the list in order: the first
  placeholder that throws ends the map. \<open>Inl\<close> is the name of the argument the error
  message reports.
\<close>

fun resolveArgValues :: "argSet \<Rightarrow> injectionRequest list \<Rightarrow> string + jsval list" where
  "resolveArgValues bag [] = Inr []"
| "resolveArgValues bag (p # ps) =
     (if readArg bag (name p) \<noteq> VUndefined then
        (case resolveArgValues bag ps of
           Inl e \<Rightarrow> Inl e
         | Inr vs \<Rightarrow> Inr (readArg bag (name p) # vs))
      else if isOptional p then
        (case resolveArgValues bag ps of
           Inl e \<Rightarrow> Inl e
         | Inr vs \<Rightarrow> Inr (VUndefined # vs))
      else Inl (name p))"

definition runFactory ::
  "'w decoratedFactory \<Rightarrow> resolveArgs \<Rightarrow> string \<Rightarrow> history \<Rightarrow> 'w \<Rightarrow> (jsval, 'w) outcome" where
  "runFactory factory ra itemName resolveHistory w =
     (case placeholderArgs factory of
        None \<Rightarrow> (case call factory [] w of (v, w') \<Rightarrow> Returned v w')
      | Some ps \<Rightarrow>
          (case resolveArgValues (usableArgs ra itemName) ps of
             Inl missing \<Rightarrow> Thrown (MissingPlaceholder itemName missing resolveHistory) w
           | Inr vs \<Rightarrow> (case call factory (map ArgValue vs) w of (v, w') \<Rightarrow> Returned v w')))"

section \<open>resolver.js\<close>

text \<open>The typedef \<open>InjectorState\<close> of index.js.\<close>

record injectorMeta =
  metaRegisterSourceFile :: jsval
  metaSkipTraceErrors :: bool

record 'w injectorState =
  registered :: "string \<rightharpoonup> 'w decoratedFactory"
  singletons :: "string \<rightharpoonup> jsval"
  meta :: injectorMeta

text \<open>\<open>injectorState.singletons[itemName]\<close>, read as a value and tested as a
  condition: the cached value, or for a name with no cached value what
  \<open>Object.prototype\<close> holds under it.\<close>

definition singletonValue :: "'w injectorState \<Rightarrow> string \<Rightarrow> jsval" where
  "singletonValue st itemName = readProperty (singletons st) itemName"

definition hasSingleton :: "'w injectorState \<Rightarrow> string \<Rightarrow> bool" where
  "hasSingleton st itemName = truthy (singletonValue st itemName)"

definition resolveSingletonAsFactory :: "'w injectorState \<Rightarrow> string \<Rightarrow> 'w decoratedFactory" where
  "resolveSingletonAsFactory st itemName =
     \<lparr>call = (\<lambda>args w. (singletonValue st itemName, w)),
      inject = None, singleton = False, filename = VUndefined,
      registerSourceFile = VUndefined, placeholderArgs = Some [],
      isUndefined = False, isSingleton = True\<rparr>"

definition getFactoryForUndefined :: "'w decoratedFactory" where
  "getFactoryForUndefined =
     \<lparr>call = (\<lambda>args w. (VUndefined, w)),
      inject = None, singleton = False, filename = VUndefined,
      registerSourceFile = VUndefined, placeholderArgs = Some [],
      isUndefined = True, isSingleton = False\<rparr>"

definition getPlaceholderArguments :: "'w decoratedFactory \<Rightarrow> injectionRequest list" where
  "getPlaceholderArguments factory =
     (case inject factory of
        None \<Rightarrow> []
      | Some reqs \<Rightarrow> filter isPlaceholder reqs)"

text \<open>
  \<open>lodash/partial\<close> is not part of the repository. Modelled from its documented
  behaviour: the partially applied function calls the original with the bound arguments,
  each placeholder taking the next argument of the call (\<open>undefined\<close> when the call
  has no more) and the arguments left over appended.
\<close>

datatype 'w partialArg = Bound "'w arg" | Placeholder

fun composeArgs :: "'w partialArg list \<Rightarrow> 'w arg list \<Rightarrow> 'w arg list" where
  "composeArgs [] args = args"
| "composeArgs (Bound a # ps) args = a # composeArgs ps args"
| "composeArgs (Placeholder # ps) [] = ArgValue VUndefined # composeArgs ps []"
| "composeArgs (Placeholder # ps) (x # args) = x # composeArgs ps args"

text \<open>
  \<open>curryFactory\<close>: the new function has only the decorators set here; \<open>$filename\<close>,
  \<open>$$registerSourceFile\<close> and \<open>$singleton\<close> are copied when truthy.
\<close>

definition curryFactory :: "'w decoratedFactory \<Rightarrow> 'w partialArg list \<Rightarrow> 'w decoratedFactory" where
  "curryFactory factory curryArgs =
     \<lparr>call = (\<lambda>args w. call factory (composeArgs curryArgs args) w),
      inject = None,
      singleton = singleton factory,
      filename = (if truthy (filename factory) then filename factory else VUndefined),
      registerSourceFile =
        (if truthy (registerSourceFile factory) then registerSourceFile factory else VUndefined),
      placeholderArgs = Some (getPlaceholderArguments factory),
      isUndefined = False, isSingleton = False\<rparr>"

text \<open>The cycle test of \<open>dependencyInjectFactory\<close>.\<close>

definition isCyclic :: "string \<Rightarrow> history \<Rightarrow> string \<Rightarrow> bool" where
  "isCyclic itemName resolveHistory injectionName =
     (itemName = injectionName \<or> list_ex (\<lambda>ancestor. recName ancestor = injectionName) resolveHistory)"

text \<open>A resolved factory given to a dependent as an argument (\<open>asFactory\<close>).\<close>

definition asArgument :: "'w decoratedFactory \<Rightarrow> 'w arg" where
  "asArgument factory = ArgFactory (\<lambda>vs w. call factory (map ArgValue vs) w)"

record 'w resolved =
  resolvedFactory :: "'w decoratedFactory"
  resolvedHistory :: history
  resolvedState :: "'w injectorState"

text \<open>
  \<open>resolveFactory\<close> and \<open>dependencyInjectFactory\<close> call each other; \<open>injectItems\<close>
  is the callback of \<open>$inject.map\<close> run over the list in order, with the variable
  \<open>updatedState\<close> as an argument beside the \<open>injectorState\<close> the function was
  entered with. The first argument bounds the depth of nested resolutions: a dependency
  is resolved with one less, and the model stops with \<open>OutOfFuel\<close> where none is
  left. A budget above the number of registered names is never used up, and a larger
  budget does not change a result (\<open>resolveFactory_terminates\<close> and
  \<open>resolveFactory_more_fuel\<close> below).

  \<open>injectorState.registered[itemName]\<close> is read where the cached value of the name
  is falsy. The factory registered under the name is truthy. For a name with no
  registered factory the value read is what \<open>Object.prototype\<close> holds under the
  name: \<open>undefined\<close> for most names, and then the name counts as not registered; for
  a name of \<open>Object.prototype\<close> (which has a falsy cached value of its own then)
  the resolver goes on with the built-in as the factory, and the model stops with
  \<open>InheritedFactory\<close>. No state that the container reaches has a cached value
  without a registered factory (\<open>container_never_takes_inherited\<close> below).
\<close>

function (sequential) resolveFactory ::
    "nat \<Rightarrow> 'w injectorState \<Rightarrow> string \<Rightarrow> resolveArgs \<Rightarrow> history \<Rightarrow> bool \<Rightarrow> 'w
       \<Rightarrow> ('w resolved, 'w) outcome"
  and dependencyInjectFactory ::
    "nat \<Rightarrow> 'w injectorState \<Rightarrow> 'w decoratedFactory \<Rightarrow> string \<Rightarrow> resolveArgs \<Rightarrow> history \<Rightarrow> 'w
       \<Rightarrow> ('w decoratedFactory \<times> 'w injectorState, 'w) outcome"
  and injectItems ::
    "nat \<Rightarrow> 'w injectorState \<Rightarrow> 'w injectorState \<Rightarrow> string \<Rightarrow> resolveArgs \<Rightarrow> history
       \<Rightarrow> injectionRequest list \<Rightarrow> 'w \<Rightarrow> ('w partialArg list \<times> 'w injectorState, 'w) outcome"
where
  "resolveFactory fuel injectorState itemName ra resolveHistory optional w =
     (if hasSingleton injectorState itemName then
        Returned
          \<lparr>resolvedFactory = resolveSingletonAsFactory injectorState itemName,
           resolvedHistory =
             addToHistory resolveHistory itemName
               (factoryMeta (resolveSingletonAsFactory injectorState itemName)),
           resolvedState = injectorState\<rparr> w
      else
        (case registered injectorState itemName of
           None \<Rightarrow>
             (if truthy (inherited itemName) then Stopped (InheritedFactory itemName)
              else if optional then
                Returned
                  \<lparr>resolvedFactory = getFactoryForUndefined,
                   resolvedHistory =
                     addToHistory resolveHistory itemName
                       (factoryMeta (getFactoryForUndefined :: 'w decoratedFactory)),
                   resolvedState = injectorState\<rparr> w
              else
                Thrown (NotRegistered itemName
                          (addToHistory resolveHistory itemName emptyObjectMeta)) w)
         | Some registeredFactory \<Rightarrow>
             (case dependencyInjectFactory fuel injectorState registeredFactory itemName ra
                     (addToHistory resolveHistory itemName (factoryMeta registeredFactory)) w of
                Stopped s \<Rightarrow> Stopped s
              | Thrown e w' \<Rightarrow> Thrown e w'
              | Returned injectData w' \<Rightarrow>
                  (if singleton (fst injectData) then
                     (case runFactory (fst injectData) ra itemName
                             (addToHistory resolveHistory itemName (factoryMeta registeredFactory)) w' of
                        Stopped s \<Rightarrow> Stopped s
                      | Thrown e w'' \<Rightarrow> Thrown e w''
                      | Returned singletonInstance w'' \<Rightarrow>
                          Returned
                            \<lparr>resolvedFactory =
                               resolveSingletonAsFactory
                                 ((snd injectData)
                                    \<lparr>singletons :=
                                       (singletons (snd injectData))(itemName \<mapsto> singletonInstance)\<rparr>)
                                 itemName,
                             resolvedHistory =
                               addToHistory resolveHistory itemName (factoryMeta registeredFactory),
                             resolvedState =
                               (snd injectData)
                                 \<lparr>singletons :=
                                    (singletons (snd injectData))(itemName \<mapsto> singletonInstance)\<rparr>\<rparr>
                            w'')
                   else
                     Returned
                       \<lparr>resolvedFactory = fst injectData,
                        resolvedHistory =
                          addToHistory resolveHistory itemName (factoryMeta registeredFactory),
                        resolvedState = injectorState\<rparr> w'))))"
| "dependencyInjectFactory fuel injectorState factory itemName ra resolveHistory w =
     (case inject factory of
        None \<Rightarrow> Returned (factory, injectorState) w
      | Some [] \<Rightarrow> Returned (factory, injectorState) w
      | Some (r # rs) \<Rightarrow>
          (case injectItems fuel injectorState injectorState itemName ra resolveHistory (r # rs) w of
             Stopped s \<Rightarrow> Stopped s
           | Thrown e w' \<Rightarrow> Thrown e w'
           | Returned deps w' \<Rightarrow> Returned (curryFactory factory (fst deps), snd deps) w'))"
| "injectItems fuel injectorState updatedState itemName ra resolveHistory [] w =
     Returned ([], updatedState) w"
| "injectItems fuel injectorState updatedState itemName ra resolveHistory (injectItem # rest) w =
     (if isPlaceholder injectItem then
        (case injectItems fuel injectorState updatedState itemName ra resolveHistory rest w of
           Stopped s \<Rightarrow> Stopped s
         | Thrown e w' \<Rightarrow> Thrown e w'
         | Returned deps w' \<Rightarrow> Returned (Placeholder # fst deps, snd deps) w')
      else if isCyclic itemName resolveHistory (name injectItem)
              \<and> \<not> hasSingleton injectorState (name injectItem) then
        Thrown (CyclicDependency (name injectItem)
                  (addToHistory resolveHistory (name injectItem) emptyObjectMeta)) w
      else
        (case fuel of
           0 \<Rightarrow> Stopped OutOfFuel
         | Suc depth \<Rightarrow>
             (case resolveFactory depth updatedState (name injectItem) ra resolveHistory
                     (isOptional injectItem) w of
                Stopped s \<Rightarrow> Stopped s
              | Thrown e w1 \<Rightarrow> Thrown e w1
              | Returned res w1 \<Rightarrow>
                  (if asFactory injectItem then
                     (case injectItems fuel injectorState (resolvedState res) itemName ra
                             resolveHistory rest w1 of
                        Stopped s \<Rightarrow> Stopped s
                      | Thrown e w2 \<Rightarrow> Thrown e w2
                      | Returned deps w2 \<Rightarrow>
                          Returned (Bound (asArgument (resolvedFactory res)) # fst deps, snd deps) w2)
                   else
                     (case runFactory (resolvedFactory res) ra (name injectItem) resolveHistory w1 of
                        Stopped s \<Rightarrow> Stopped s
                      | Thrown e w2 \<Rightarrow> Thrown e w2
                      | Returned v w2 \<Rightarrow>
                          (case injectItems fuel injectorState (resolvedState res) itemName ra
                                  resolveHistory rest w2 of
                             Stopped s \<Rightarrow> Stopped s
                           | Thrown e w3 \<Rightarrow> Thrown e w3
                           | Returned deps w3 \<Rightarrow>
                               Returned (Bound (ArgValue v) # fst deps, snd deps) w3))))))"
  by pat_completeness auto

termination
  by (relation "inv_image (less_than <*lex*> less_than)
        (\<lambda>x. case x of
           Inl (fuel, st, n, ra, h, opt, w) \<Rightarrow> (3 * fuel + 2, 0)
         | Inr (Inl (fuel, st, f, n, ra, h, w)) \<Rightarrow> (3 * fuel + 1, 0)
         | Inr (Inr (fuel, st, u, n, ra, h, items, w)) \<Rightarrow> (3 * fuel, length items))") auto

text \<open>
  Two outcomes of the same resolution under two depth budgets agree when the one under the
  smaller budget is a result at all.
\<close>

definition fuelStable :: "('a, 'w) outcome \<Rightarrow> ('a, 'w) outcome \<Rightarrow> bool" where
  "fuelStable lo hi = (lo = Stopped OutOfFuel \<or> hi = lo)"

text \<open>
  The states of a container: a name with a cached value has a registered factory.
\<close>

definition cachedAreRegistered :: "'w injectorState \<Rightarrow> bool" where
  "cachedAreRegistered st = (dom (singletons st) \<subseteq> dom (registered st))"

text \<open>
  What a resolution leaves in place when it returns a state: the registry, the meta
  data, and a truthy cached value for every name that had one; a name that is cached
  afterwards was cached before or is registered. A resolution stops at an inherited
  factory only from a state that is not a container's.
\<close>

definition keepsState :: "'w injectorState \<Rightarrow> 'w injectorState \<Rightarrow> bool" where
  "keepsState st st' =
     (registered st' = registered st \<and> meta st' = meta st \<and>
      (\<forall>m. hasSingleton st m \<longrightarrow> hasSingleton st' m) \<and>
      dom (singletons st') \<subseteq> dom (singletons st) \<union> dom (registered st))"

definition keeps :: "'w injectorState \<Rightarrow> ('a, 'w) outcome \<Rightarrow> ('a \<Rightarrow> 'w injectorState) \<Rightarrow> bool" where
  "keeps st out sel =
     (case out of
        Returned x w \<Rightarrow> keepsState st (sel x)
      | Thrown e w \<Rightarrow> True
      | Stopped OutOfFuel \<Rightarrow> True
      | Stopped (InheritedFactory m) \<Rightarrow> \<not> cachedAreRegistered st)"

section \<open>injector.js\<close>

text \<open>
  A function as \<open>register\<close> receives it: what calling it does, its source text
  (\<open>factory.toString()\<close>), and the decorators the user may have set. \<open>$inject\<close> is
  falsy (not set), the literal \<open>true\<close>, an array, or some other truthy value; an entry
  of the array is a request object, a string, or something else. \<open>$placeholders\<close> is
  falsy, an array of strings and other things (\<open>None\<close>), or some other truthy value.
\<close>

datatype injectItem = ItemRequest injectionRequest | ItemString string | ItemOther

datatype injectDecl = InjectFalsy | InjectTrue | InjectArray "injectItem list" | InjectNonArray

datatype placeholdersDecl =
  PlaceholdersFalsy | PlaceholdersArray "string option list" | PlaceholdersNonArray

record 'w factoryFunction =
  fnCall :: "'w arg list \<Rightarrow> 'w \<Rightarrow> jsval \<times> 'w"
  fnSource :: string
  fnInject :: injectDecl
  fnPlaceholders :: placeholdersDecl
  fnSingleton :: bool
  fnFilename :: jsval
  fnRegisterSourceFile :: jsval

definition functionMeta :: "'w factoryFunction \<Rightarrow> jsval \<times> jsval \<times> bool" where
  "functionMeta f = (fnFilename f, fnRegisterSourceFile f, False)"

datatype placeholderType = PLACEHOLDER_TYPE_ALL | PLACEHOLDER_TYPE_OPTIONAL | PLACEHOLDER_TYPE_LIST

text \<open>
  What the functions of injector.js throw: an error with \<open>addToStack\<close> and a \<open>%s\<close>
  for the item name, which \<open>parseFactoryInject\<close> rebuilds, or a finished error.
\<close>

datatype thrown = Template injectTemplateError | Built error

subsection \<open>Strings\<close>

definition startsWith :: "string \<Rightarrow> string \<Rightarrow> bool" where
  "startsWith p s = (take (length p) s = p)"

text \<open>\<open>s.indexOf(sub) !== -1\<close>.\<close>

fun hasSubstring :: "string \<Rightarrow> string \<Rightarrow> bool" where
  "hasSubstring sub [] = (sub = [])"
| "hasSubstring sub (c # cs) = (startsWith sub (c # cs) \<or> hasSubstring sub cs)"

text \<open>\<open>s.slice(-1) === OPTIONAL_CHARACTER\<close>.\<close>

definition endsWithOptionalCharacter :: "string \<Rightarrow> bool" where
  "endsWithOptionalCharacter s = (case rev s of [] \<Rightarrow> False | c # cs \<Rightarrow> c = CHR ''?'')"

text \<open>\<open>s.replace(/[^a-zA-Z0-9_$]/gi, '')\<close>: without the flag \<open>u\<close>, ignoring case
  makes no character outside ASCII match a letter.\<close>

definition isNameChar :: "char \<Rightarrow> bool" where
  "isNameChar c =
     (c \<in> set ''abcdefghijklmnopqrstuvwxyzABCDEFGHIJKLMNOPQRSTUVWXYZ0123456789_$'')"

definition safeName :: "string \<Rightarrow> string" where
  "safeName s = filter isNameChar s"

text \<open>
  \<open>s.replace(/[\s\n]/g, '')\<close>. The class \<open>\s\<close> is the white space and the line
  terminators of ECMAScript: tab, line feed, vertical tab, form feed, carriage return and
  space, which are single bytes, U+00A0, which has two bytes in UTF-8, and U+1680,
  U+2000 to U+200A, U+2028, U+2029, U+202F, U+205F, U+3000 and U+FEFF, which have three.
\<close>

definition isWhiteSpace :: "char \<Rightarrow> bool" where
  "isWhiteSpace c =
     (c \<in> set [CHR '' '', CHR 0x09, CHR 0x0A, CHR 0x0B, CHR 0x0C, CHR 0x0D])"

definition isWhiteSpace2 :: "char \<Rightarrow> char \<Rightarrow> bool" where
  "isWhiteSpace2 a b = (a = CHR 0xC2 \<and> b = CHR 0xA0)"

definition isWhiteSpace3 :: "char \<Rightarrow> char \<Rightarrow> char \<Rightarrow> bool" where
  "isWhiteSpace3 a b c =
     ((a, b, c) \<in> set
        [(CHR 0xE1, CHR 0x9A, CHR 0x80),
         (CHR 0xE2, CHR 0x80, CHR 0x80), (CHR 0xE2, CHR 0x80, CHR 0x81),
         (CHR 0xE2, CHR 0x80, CHR 0x82), (CHR 0xE2, CHR 0x80, CHR 0x83),
         (CHR 0xE2, CHR 0x80, CHR 0x84), (CHR 0xE2, CHR 0x80, CHR 0x85),
         (CHR 0xE2, CHR 0x80, CHR 0x86), (CHR 0xE2, CHR 0x80, CHR 0x87),
         (CHR 0xE2, CHR 0x80, CHR 0x88), (CHR 0xE2, CHR 0x80, CHR 0x89),
         (CHR 0xE2, CHR 0x80, CHR 0x8A),
         (CHR 0xE2, CHR 0x80, CHR 0xA8), (CHR 0xE2, CHR 0x80, CHR 0xA9),
         (CHR 0xE2, CHR 0x80, CHR 0xAF), (CHR 0xE2, CHR 0x81, CHR 0x9F),
         (CHR 0xE3, CHR 0x80, CHR 0x80), (CHR 0xEF, CHR 0xBB, CHR 0xBF)])"

fun removeWhiteSpace :: "string \<Rightarrow> string" where
  "removeWhiteSpace [] = []"
| "removeWhiteSpace [a] = (if isWhiteSpace a then [] else [a])"
| "removeWhiteSpace [a, b] =
     (if isWhiteSpace a then removeWhiteSpace [b]
      else if isWhiteSpace2 a b then []
      else a # removeWhiteSpace [b])"
| "removeWhiteSpace (a # b # c # rest) =
     (if isWhiteSpace a then removeWhiteSpace (b # c # rest)
      else if isWhiteSpace2 a b then removeWhiteSpace (c # rest)
      else if isWhiteSpace3 a b c then removeWhiteSpace rest
      else a # removeWhiteSpace (b # c # rest))"

text \<open>\<open>s.split(sep)\<close> for a separator of one character: the empty string gives one
  empty part.\<close>

fun splitOn :: "char \<Rightarrow> string \<Rightarrow> string list" where
  "splitOn sep [] = [[]]"
| "splitOn sep (c # cs) =
     (if c = sep then [] # splitOn sep cs
      else (case splitOn sep cs of
              [] \<Rightarrow> [[c]]
            | part # parts \<Rightarrow> (c # part) # parts))"

text \<open>
  \<open>s.match(FUNCTION_ARGUMENT_REGEXP)\<close> with
  \<open>/^(function[^(]*)?\(([^)]*)\)/\<close>, giving the second group: after an optional
  \<open>function\<close> and what follows it up to the first \<open>(\<close>, the text between that
  \<open>(\<close> and the next \<open>)\<close>. \<open>None\<close> is no match.
\<close>

definition parenthesized :: "string \<Rightarrow> string option" where
  "parenthesized s =
     (case s of
        [] \<Rightarrow> None
      | c # cs \<Rightarrow>
          (if c = CHR ''('' \<and> CHR '')'' \<in> set cs
           then Some (takeWhile (\<lambda>d. d \<noteq> CHR '')'') cs) else None))"

definition matchFunctionArguments :: "string \<Rightarrow> string option" where
  "matchFunctionArguments src =
     (if startsWith ''function'' src
      then parenthesized (dropWhile (\<lambda>c. c \<noteq> CHR ''('') (drop 8 src))
      else parenthesized src)"

subsection \<open>Parsing\<close>

text \<open>\<open>buildInjectionRequest(name, {isOptional, isPlaceholder})\<close>: an option that is
  not truthy is not set.\<close>

definition buildInjectionRequest :: "string \<Rightarrow> bool \<Rightarrow> bool \<Rightarrow> injectionRequest" where
  "buildInjectionRequest nm optional placeholder =
     \<lparr>name = nm, isOptional = optional, asFactory = False, isPlaceholder = placeholder\<rparr>"

text \<open>
  One entry of \<open>$inject\<close> in \<open>parseFactoryInjectionArguments\<close>: whether its index is
  pushed to \<open>invalidIndexes\<close>, and the request (\<open>None\<close> is \<open>null\<close>).
\<close>

fun parseInjectItem :: "injectItem \<Rightarrow> bool \<times> injectionRequest option" where
  "parseInjectItem (ItemRequest r) = (if name r \<noteq> [] then (False, Some r) else (True, None))"
| "parseInjectItem ItemOther = (True, None)"
| "parseInjectItem (ItemString s) =
     (safeName s = [],
      Some \<lparr>name = safeName s, isOptional = endsWithOptionalCharacter s,
            asFactory = hasSubstring ''()'' s, isPlaceholder = hasSubstring ''*'' s\<rparr>)"

definition invalidIndexes :: "bool list \<Rightarrow> nat list" where
  "invalidIndexes flags = map fst (filter snd (zip [0 ..< length flags] flags))"

definition parseFactoryInjectionArguments ::
  "'w factoryFunction \<Rightarrow> injectTemplateError + injectionRequest list" where
  "parseFactoryInjectionArguments factory =
     (case fnInject factory of
        InjectArray items \<Rightarrow>
          (if invalidIndexes (map (fst \<circ> parseInjectItem) items) \<noteq> []
           then Inl (InvalidInjectIndexes (invalidIndexes (map (fst \<circ> parseInjectItem) items)))
           else Inr (List.map_filter (snd \<circ> parseInjectItem) items))
      | _ \<Rightarrow> Inl NonArrayInject)"

text \<open>
  The object \<open>parsedPlaceholderArgs\<close> of \<open>getFactoryPlaceholderOptions\<close>. The
  assignment \<open>parsedPlaceholderArgs[safeName] = {isOptional}\<close> makes an own
  property, a later one overwriting an earlier one of the same name; for the name
  \<open>__proto__\<close> it makes no own property but replaces the prototype of the object by
  the object \<open>{isOptional}\<close>, whose prototype is \<open>Object.prototype\<close>.
  \<open>ownOptions\<close> maps the own property names to their \<open>isOptional\<close>, and
  \<open>prototypeOption\<close> is the \<open>isOptional\<close> of the prototype where it was
  replaced.
\<close>

record placeholderOptions =
  ownOptions :: "string \<rightharpoonup> bool"
  prototypeOption :: "bool option"

definition noPlaceholderOptions :: placeholderOptions where
  "noPlaceholderOptions = \<lparr>ownOptions = Map.empty, prototypeOption = None\<rparr>"

definition assignPlaceholderOption :: "placeholderOptions \<Rightarrow> string \<times> bool \<Rightarrow> placeholderOptions" where
  "assignPlaceholderOption options entry =
     (if fst entry = ''__proto__'' then options\<lparr>prototypeOption := Some (snd entry)\<rparr>
      else options\<lparr>ownOptions := (ownOptions options)(fst entry \<mapsto> snd entry)\<rparr>)"

fun parsePlaceholder :: "string option \<Rightarrow> bool \<times> (string \<times> bool) option" where
  "parsePlaceholder None = (True, None)"
| "parsePlaceholder (Some s) = (safeName s = [], Some (safeName s, endsWithOptionalCharacter s))"

definition getFactoryPlaceholderOptions ::
  "'w factoryFunction \<Rightarrow> injectTemplateError + placeholderOptions" where
  "getFactoryPlaceholderOptions factory =
     (case fnPlaceholders factory of
        PlaceholdersNonArray \<Rightarrow> Inl NonArrayPlaceholders
      | PlaceholdersFalsy \<Rightarrow> Inr noPlaceholderOptions
      | PlaceholdersArray items \<Rightarrow>
          (if invalidIndexes (map (fst \<circ> parsePlaceholder) items) \<noteq> []
           then Inl (InvalidPlaceholderIndexes (invalidIndexes (map (fst \<circ> parsePlaceholder) items)))
           else Inr (foldl assignPlaceholderOption noPlaceholderOptions
                       (List.map_filter (snd \<circ> parsePlaceholder) items))))"

text \<open>
  \<open>placeholderArgs[name]\<close> in \<open>parseFactoryPlaceholderArguments\<close>: \<open>None\<close>
  where the value read is falsy, and else the truthiness of its \<open>isOptional\<close>. The
  value is the own property of the name; for \<open>__proto__\<close> the prototype; else, where
  the prototype was replaced, its property \<open>isOptional\<close> for that name (a boolean,
  which has no \<open>isOptional\<close>); else what \<open>Object.prototype\<close> holds under the
  name (a built-in, which has no \<open>isOptional\<close>).
\<close>

definition fromPlaceholder :: "placeholderOptions \<Rightarrow> string \<Rightarrow> bool option" where
  "fromPlaceholder options nm =
     (if nm = ''__proto__'' then
        Some (case prototypeOption options of None \<Rightarrow> False | Some optional \<Rightarrow> optional)
      else
        (case ownOptions options nm of
           Some optional \<Rightarrow> Some optional
         | None \<Rightarrow>
             (if nm = ''isOptional'' \<and> prototypeOption options \<noteq> None then
                (if prototypeOption options = Some True then Some False else None)
              else if truthy (inherited nm) then Some False
              else None)))"

text \<open>The callback of the \<open>reduce\<close> over the split argument list.\<close>

definition placeholderRequest ::
  "placeholderType \<Rightarrow> placeholderOptions \<Rightarrow> string \<Rightarrow> injectionRequest" where
  "placeholderRequest ptype options functionArgument =
     (let optional = (CHR ''='' \<in> set functionArgument);
          nm = (if optional then hd (splitOn CHR ''='' functionArgument) else functionArgument)
      in (case ptype of
            PLACEHOLDER_TYPE_ALL \<Rightarrow> buildInjectionRequest nm optional True
          | PLACEHOLDER_TYPE_OPTIONAL \<Rightarrow> buildInjectionRequest nm optional optional
          | PLACEHOLDER_TYPE_LIST \<Rightarrow>
              (case fromPlaceholder options nm of
                 Some optionalThere \<Rightarrow> buildInjectionRequest nm optionalThere True
               | None \<Rightarrow> buildInjectionRequest nm optional False)))"

definition parseFactoryPlaceholderArguments ::
  "'w factoryFunction \<Rightarrow> string \<Rightarrow> placeholderType \<Rightarrow> thrown + injectionRequest list" where
  "parseFactoryPlaceholderArguments factory itemName ptype =
     (case (if ptype = PLACEHOLDER_TYPE_LIST then getFactoryPlaceholderOptions factory
            else Inr noPlaceholderOptions) of
        Inl e \<Rightarrow> Inl (Template e)
      | Inr options \<Rightarrow>
          (case matchFunctionArguments (fnSource factory) of
             None \<Rightarrow>
               Inl (Built (CouldNotParseArguments itemName
                             (addToHistory [] itemName (functionMeta factory))))
           | Some arguments \<Rightarrow>
               (if arguments = [] then Inr []
                else if removeWhiteSpace arguments = [] then Inr []
                else Inr (map (placeholderRequest ptype options)
                            (filter (\<lambda>a. a \<noteq> [])
                               (splitOn CHR '','' (removeWhiteSpace arguments)))))))"

text \<open>\<open>expectedArgsCount\<close> of \<open>validateFunctionArgumentCount\<close>, where the source
  text matches.\<close>

definition expectedArgsCount :: "string \<Rightarrow> nat option" where
  "expectedArgsCount src =
     (case matchFunctionArguments src of
        None \<Rightarrow> None
      | Some arguments \<Rightarrow>
          Some (if arguments = [] then 0 else length (splitOn CHR '','' arguments)))"

definition validateFunctionArgumentCount ::
  "'w factoryFunction \<Rightarrow> string \<Rightarrow> nat \<Rightarrow> error option" where
  "validateFunctionArgumentCount factory itemName factoryArgsCount =
     (case expectedArgsCount (fnSource factory) of
        None \<Rightarrow>
          Some (CouldNotParseArgumentCount itemName
                  (addToHistory [] itemName (functionMeta factory)))
      | Some expected \<Rightarrow>
          (if factoryArgsCount \<noteq> expected
           then Some (CountMismatch factoryArgsCount itemName expected
                        (addToHistory [] itemName (functionMeta factory)))
           else None))"

text \<open>The \<open>try\<close> block of \<open>parseFactoryInject\<close>, and the function with its
  \<open>catch\<close>.\<close>

definition parseFactoryInjectBody ::
  "'w factoryFunction \<Rightarrow> string \<Rightarrow> thrown + injectionRequest list" where
  "parseFactoryInjectBody factory itemName =
     (case fnInject factory of
        InjectFalsy \<Rightarrow> parseFactoryPlaceholderArguments factory itemName PLACEHOLDER_TYPE_ALL
      | InjectTrue \<Rightarrow> parseFactoryPlaceholderArguments factory itemName PLACEHOLDER_TYPE_LIST
      | _ \<Rightarrow>
          (case parseFactoryInjectionArguments factory of
             Inl e \<Rightarrow> Inl (Template e)
           | Inr injectionArgs \<Rightarrow>
               (case validateFunctionArgumentCount factory itemName (length injectionArgs) of
                  Some e \<Rightarrow> Inl (Built e)
                | None \<Rightarrow> Inr injectionArgs)))"

definition parseFactoryInject ::
  "'w factoryFunction \<Rightarrow> string \<Rightarrow> history \<Rightarrow> error + injectionRequest list" where
  "parseFactoryInject factory itemName registerHistory =
     (case parseFactoryInjectBody factory itemName of
        Inl (Template e) \<Rightarrow> Inl (InjectError e itemName registerHistory)
      | Inl (Built e) \<Rightarrow> Inl e
      | Inr requests \<Rightarrow> Inr requests)"

section \<open>registration.js\<close>

text \<open>The typedef \<open>RegisterOptions\<close> of index.js; an option that is not given is
  \<open>False\<close> or \<open>VUndefined\<close>.\<close>

record registerOptions =
  optFilename :: jsval
  forceSingleton :: bool
  skipTraceErrors :: bool
  optRegisterSourceFile :: jsval

text \<open>What \<open>validateFactory\<close> writes with \<open>console.log\<close>.\<close>

datatype warning = NoFilenameWarning string

definition validateFactory ::
  "'w factoryFunction \<Rightarrow> string \<Rightarrow> history \<Rightarrow> warning list \<times> error option" where
  "validateFactory factory itemName registerHistory =
     (if \<not> truthy (fnFilename factory) then [NoFilenameWarning itemName] else [],
      if \<not> truthy (fnRegisterSourceFile factory)
      then Some (NoRegisterSource itemName registerHistory) else None)"

text \<open>
  The decorators \<open>registerFactory\<close> assigns before it validates: \<open>$singleton\<close>,
  \<open>$filename\<close> and \<open>$$registerSourceFile\<close>. It assigns them, and \<open>$inject\<close>
  later, to the function object it is given; the function is taken to be registered
  here for the first time and under one name, so that no other entry of the registry
  shares the object.
\<close>

definition stampFactory ::
  "'w injectorState \<Rightarrow> 'w factoryFunction \<Rightarrow> registerOptions \<Rightarrow> 'w factoryFunction" where
  "stampFactory injectorState factory options =
     factory
       \<lparr>fnSingleton := (if forceSingleton options then True else fnSingleton factory),
        fnFilename :=
          (if truthy (optFilename options) then optFilename options else fnFilename factory),
        fnRegisterSourceFile :=
          (if truthy (optRegisterSourceFile options) then optRegisterSourceFile options
           else if truthy (metaRegisterSourceFile (meta injectorState))
           then metaRegisterSourceFile (meta injectorState)
           else VUndefined)\<rparr>"

text \<open>The registered function with \<open>$inject\<close> replaced by the parsed requests, as the
  registry holds it.\<close>

definition decorated :: "'w factoryFunction \<Rightarrow> injectionRequest list \<Rightarrow> 'w decoratedFactory" where
  "decorated factory requests =
     \<lparr>call = fnCall factory, inject = Some requests, singleton = fnSingleton factory,
      filename = fnFilename factory, registerSourceFile = fnRegisterSourceFile factory,
      placeholderArgs = None, isUndefined = False, isSingleton = False\<rparr>"

text \<open>\<open>registerFactory\<close>: what was logged, and the error thrown or the new state.\<close>

definition registerFactory ::
  "'w injectorState \<Rightarrow> string \<Rightarrow> 'w factoryFunction \<Rightarrow> registerOptions
     \<Rightarrow> warning list \<times> (error + 'w injectorState)" where
  "registerFactory injectorState itemName factory options =
     (let stamped = stampFactory injectorState factory options;
          registerHistory = addToHistory [] itemName (functionMeta stamped);
          validation =
            (if \<not> skipTraceErrors options \<and> \<not> metaSkipTraceErrors (meta injectorState)
             then validateFactory stamped itemName registerHistory
             else ([], None))
      in (case snd validation of
            Some e \<Rightarrow> (fst validation, Inl e)
          | None \<Rightarrow>
              (case parseFactoryInject stamped itemName registerHistory of
                 Inl e \<Rightarrow> (fst validation, Inl e)
               | Inr requests \<Rightarrow>
                   (fst validation,
                    Inr (injectorState
                           \<lparr>registered :=
                              (registered injectorState)(itemName \<mapsto> decorated stamped requests)\<rparr>)))))"

section \<open>index.js\<close>

text \<open>
  The container is its injector state; each operation returns the state the container
  holds afterwards. Where an operation throws, the outcome has no state: the container
  keeps the state it had, except that \<open>resolve\<close> has adopted the state
  \<open>resolveFactory\<close> returned when the throw is that of \<open>runFactory\<close>. An item
  name is a string, so of the two checks on it the one for an empty name remains.

  What is registered is a function of the program or a value \<open>v\<close> that is not a
  function (\<open>isFunction v\<close> is false).
\<close>

datatype 'w factoryOrItem = IsFunction "'w factoryFunction" | NotFunction jsval

definition noOptions :: registerOptions where
  "noOptions =
     \<lparr>optFilename = VUndefined, forceSingleton = False, skipTraceErrors = False,
      optRegisterSourceFile = VUndefined\<rparr>"

text \<open>The source text of the wrapper \<open>itemFactory\<close>, as written in index.js.\<close>

definition itemFactorySource :: string where
  "itemFactorySource =
     ''function itemFactory() {'' @ [CHR 0x0A] @
     ''        return factoryOrItem;'' @ [CHR 0x0A] @
     ''      }''"

definition itemFactory :: "jsval \<Rightarrow> 'w factoryFunction" where
  "itemFactory factoryOrItem =
     \<lparr>fnCall = (\<lambda>args w. (factoryOrItem, w)),
      fnSource = itemFactorySource,
      fnInject = InjectFalsy,
      fnPlaceholders = PlaceholdersFalsy,
      fnSingleton = True,
      fnFilename =
        (if truthy factoryOrItem \<and> truthy (filenameOf factoryOrItem)
         then filenameOf factoryOrItem else VUndefined),
      fnRegisterSourceFile = VUndefined\<rparr>"

text \<open>\<open>options || {}\<close>.\<close>

definition safeOptions :: "registerOptions option \<Rightarrow> registerOptions" where
  "safeOptions options = (case options of None \<Rightarrow> noOptions | Some opts \<Rightarrow> opts)"

definition register ::
  "'w injectorState \<Rightarrow> string \<Rightarrow> 'w factoryOrItem \<Rightarrow> registerOptions option
     \<Rightarrow> warning list \<times> (error + 'w injectorState)" where
  "register injectorState itemName factoryOrItem options =
     (if itemName = [] then ([], Inl NoItemName)
      else registerFactory injectorState itemName
             (case factoryOrItem of
                IsFunction f \<Rightarrow> f
              | NotFunction v \<Rightarrow> itemFactory v)
             (safeOptions options))"

text \<open>\<open>resolve\<close> returns the factory when \<open>options.asFactory\<close> is set and the value
  it produces otherwise.\<close>

datatype 'w resolution = AsValue jsval | AsFactory "'w decoratedFactory"

definition resolve ::
  "nat \<Rightarrow> 'w injectorState \<Rightarrow> string \<Rightarrow> resolveArgs \<Rightarrow> bool \<Rightarrow> 'w
     \<Rightarrow> ('w resolution \<times> 'w injectorState, 'w) outcome" where
  "resolve fuel injectorState itemName ra optAsFactory w =
     (if itemName = [] then Thrown NoItemName w
      else
        (case resolveFactory fuel injectorState itemName ra [] False w of
           Stopped s \<Rightarrow> Stopped s
         | Thrown e w' \<Rightarrow> Thrown e w'
         | Returned res w' \<Rightarrow>
             (if optAsFactory then
                Returned (AsFactory (resolvedFactory res), resolvedState res) w'
              else
                (case runFactory (resolvedFactory res) ra itemName (resolvedHistory res) w' of
                   Stopped s \<Rightarrow> Stopped s
                 | Thrown e w'' \<Rightarrow> Thrown e w''
                 | Returned v w'' \<Rightarrow> Returned (AsValue v, resolvedState res) w''))))"

definition setRegisterSource :: "'w injectorState \<Rightarrow> jsval \<Rightarrow> jsval \<times> 'w injectorState" where
  "setRegisterSource injectorState sourceFile =
     (orElse (metaRegisterSourceFile (meta injectorState)) VNull,
      injectorState
        \<lparr>meta := (meta injectorState)\<lparr>metaRegisterSourceFile := sourceFile\<rparr>\<rparr>)"

definition setSkipTraceErrors :: "'w injectorState \<Rightarrow> bool \<Rightarrow> 'w injectorState" where
  "setSkipTraceErrors injectorState skip =
     injectorState\<lparr>meta := (meta injectorState)\<lparr>metaSkipTraceErrors := skip\<rparr>\<rparr>"

definition clearSingletons :: "'w injectorState \<Rightarrow> 'w injectorState" where
  "clearSingletons injectorState = injectorState\<lparr>singletons := Map.empty\<rparr>"

text \<open>
  \<open>factoryDiFactory\<close>: the empty state, in which the container registers itself. The
  container object is a value of which its \<open>$filename\<close> is kept; \<open>moduleFilename\<close> is
  the \<open>__filename\<close> of index.js.
\<close>

definition emptyState :: "'w injectorState" where
  "emptyState =
     \<lparr>registered = Map.empty, singletons = Map.empty,
      meta = \<lparr>metaRegisterSourceFile = VUndefined, metaSkipTraceErrors = False\<rparr>\<rparr>"

definition factoryDiFactory :: "string \<Rightarrow> warning list \<times> (error + 'w injectorState)" where
  "factoryDiFactory moduleFilename =
     register emptyState ''factoryDi''
       (NotFunction (VObj [(''$filename'', VStr moduleFilename)]))
       (Some (noOptions
                \<lparr>optRegisterSourceFile :=
                   orElse (VStr moduleFilename) (VStr ''factory-di/src/index.js'')\<rparr>))"

section \<open>Example factories and containers\<close>

text \<open>
  The examples the theorems below are instantiated at. Their world is a counter that a
  counting factory body increments each time it runs.
\<close>

definition firstArgument :: "'w arg list \<Rightarrow> jsval" where
  "firstArgument args = (case args of ArgValue v # rest \<Rightarrow> v | _ \<Rightarrow> VUndefined)"

text \<open>A bound factory with one placeholder argument, which it returns, counting its
  runs.\<close>

definition exampleBound :: "string \<Rightarrow> bool \<Rightarrow> nat decoratedFactory" where
  "exampleBound parameter optional =
     \<lparr>call = (\<lambda>args w. (firstArgument args, Suc w)), inject = None, singleton = False,
      filename = VUndefined, registerSourceFile = VUndefined,
      placeholderArgs =
        Some [\<lparr>name = parameter, isOptional = optional, asFactory = False,
                isPlaceholder = True\<rparr>],
      isUndefined = False, isSingleton = False\<rparr>"

text \<open>\<open>{common: {z: shared}, c: {z: own}}\<close>.\<close>

definition exampleArgs :: "jsval \<Rightarrow> jsval \<Rightarrow> resolveArgs" where
  "exampleArgs shared own =
     Some [''common'' \<mapsto> [''z'' \<mapsto> shared], ''c'' \<mapsto> [''z'' \<mapsto> own]]"

text \<open>\<open>{c: {[parameter]: undefined}}\<close> and \<open>{c: {}}\<close>.\<close>

definition undefinedEntry :: "string \<Rightarrow> resolveArgs" where
  "undefinedEntry parameter = Some [''c'' \<mapsto> [parameter \<mapsto> VUndefined]]"

definition noEntry :: resolveArgs where
  "noEntry = Some [''c'' \<mapsto> Map.empty]"

text \<open>\<open>{skipTraceErrors: true}\<close> as the options of a \<open>register\<close> call.\<close>

definition skipTrace :: registerOptions where
  "skipTrace = noOptions\<lparr>skipTraceErrors := True\<rparr>"

text \<open>\<open>{registerSourceFile: '/app/main.js'}\<close> as the options of a \<open>register\<close>
  call.\<close>

definition sourceGiven :: registerOptions where
  "sourceGiven = noOptions\<lparr>optRegisterSourceFile := VStr ''/app/main.js''\<rparr>"

text \<open>A singleton factory without parameters that counts its runs and returns
  \<open>v\<close>; \<open>src\<close> is its source text.\<close>

definition countingSingleton :: "jsval \<Rightarrow> string \<Rightarrow> nat factoryFunction" where
  "countingSingleton v src =
     \<lparr>fnCall = (\<lambda>args w. (v, Suc w)), fnSource = src, fnInject = InjectFalsy,
      fnPlaceholders = PlaceholdersFalsy, fnSingleton = True, fnFilename = VUndefined,
      fnRegisterSourceFile = VUndefined\<rparr>"

text \<open>A factory with \<open>$inject = [dependency]\<close> that returns what it is given.\<close>

definition passingFunction :: "string \<Rightarrow> string \<Rightarrow> nat factoryFunction" where
  "passingFunction src dependency =
     \<lparr>fnCall = (\<lambda>args w. (firstArgument args, w)), fnSource = src,
      fnInject = InjectArray [ItemString dependency],
      fnPlaceholders = PlaceholdersFalsy, fnSingleton = False, fnFilename = VUndefined,
      fnRegisterSourceFile = VUndefined\<rparr>"

definition request :: "string \<Rightarrow> injectionRequest" where
  "request nm = \<lparr>name = nm, isOptional = False, asFactory = False, isPlaceholder = False\<rparr>"

definition traceRecord :: "string \<Rightarrow> historyRecord" where
  "traceRecord nm =
     \<lparr>recName = nm, filepath = VNull, registerSource = VNull, notFound = False\<rparr>"

text \<open>A container holding the singleton factory \<open>zero\<close>, which returns \<open>0\<close>, before
  and after its first resolution.\<close>

definition zeroFunction :: "nat factoryFunction" where
  "zeroFunction = countingSingleton (VNum 0) ''function zeroFactory() { runs++; return 0; }''"

definition zeroContainer :: "nat injectorState" where
  "zeroContainer = emptyState\<lparr>registered := [''zero'' \<mapsto> decorated zeroFunction []]\<rparr>"

definition zeroCached :: "nat injectorState" where
  "zeroCached = zeroContainer\<lparr>singletons := [''zero'' \<mapsto> VNum 0]\<rparr>"

text \<open>The container that holds \<open>zero\<close> registered with the source
  \<open>/app/main.js\<close>.\<close>

definition sourceContainer :: "nat injectorState" where
  "sourceContainer =
     emptyState
       \<lparr>registered :=
          [''zero'' \<mapsto>
             decorated (zeroFunction\<lparr>fnRegisterSourceFile := VStr ''/app/main.js''\<rparr>) []]\<rparr>"

text \<open>A container holding the singleton factory \<open>s\<close>, which returns \<open>7\<close>, and the
  factory \<open>a\<close>, not a singleton, which depends on \<open>s\<close>.\<close>

definition sevenFunction :: "nat factoryFunction" where
  "sevenFunction = countingSingleton (VNum 7) ''function sFactory() { runs++; return 7; }''"

definition aFunction :: "nat factoryFunction" where
  "aFunction = passingFunction ''function aFactory(s) { return s; }'' ''s''"

definition sContainer :: "nat injectorState" where
  "sContainer = emptyState\<lparr>registered := [''s'' \<mapsto> decorated sevenFunction []]\<rparr>"

definition depContainer :: "nat injectorState" where
  "depContainer =
     emptyState
       \<lparr>registered :=
          [''s'' \<mapsto> decorated sevenFunction [], ''a'' \<mapsto> decorated aFunction [request ''s'']]\<rparr>"

text \<open>A container holding \<open>a\<close>, which depends on \<open>b\<close>, and \<open>b\<close>, which depends on
  \<open>a\<close>.\<close>

definition cycleA :: "nat factoryFunction" where
  "cycleA = passingFunction ''function aFactory(b) { return b; }'' ''b''"

definition cycleB :: "nat factoryFunction" where
  "cycleB = passingFunction ''function bFactory(a) { return a; }'' ''a''"

definition cycleContainer :: "nat injectorState" where
  "cycleContainer =
     emptyState
       \<lparr>registered :=
          [''a'' \<mapsto> decorated cycleA [request ''b''], ''b'' \<mapsto> decorated cycleB [request ''a'']]\<rparr>"

text \<open>A container in which the value \<open>v\<close> was registered and resolved as \<open>z\<close>, and
  then a factory that depends on \<open>z\<close> was registered under the same name.\<close>

definition selfFunction :: "nat factoryFunction" where
  "selfFunction = passingFunction ''function zFactory(z) { return z; }'' ''z''"

definition valueContainer :: "jsval \<Rightarrow> nat injectorState" where
  "valueContainer v = emptyState\<lparr>registered := [''z'' \<mapsto> decorated (itemFactory v) []]\<rparr>"

definition valueCached :: "jsval \<Rightarrow> nat injectorState" where
  "valueCached v = (valueContainer v)\<lparr>singletons := [''z'' \<mapsto> v]\<rparr>"

definition selfContainer :: "jsval \<Rightarrow> nat injectorState" where
  "selfContainer v =
     emptyState
       \<lparr>registered := [''z'' \<mapsto> decorated selfFunction [request ''z'']],
        singletons := [''z'' \<mapsto> v]\<rparr>"

text \<open>The history a resolution returned (empty where it did not return).\<close>

definition returnedHistory :: "('w resolved, 'w) outcome \<Rightarrow> history" where
  "returnedHistory out = (case out of Returned r w \<Rightarrow> resolvedHistory r | _ \<Rightarrow> [])"







text \<open>A function whose second parameter has a default value, with a given
  \<open>$inject\<close>.\<close>

definition defaultFunction :: "injectDecl \<Rightarrow> nat factoryFunction" where
  "defaultFunction declared =
     \<lparr>fnCall = (\<lambda>args w. (firstArgument args, w)),
      fnSource = ''function f(a, b = [1, 2]) { return a; }'',
      fnInject = declared, fnPlaceholders = PlaceholdersFalsy, fnSingleton = False,
      fnFilename = VUndefined, fnRegisterSourceFile = VUndefined\<rparr>"

text \<open>A function whose one parameter has a name of \<open>Object.prototype\<close>, registered
  without \<open>$inject\<close>, and the container that holds it as \<open>f\<close>.\<close>

definition constructorFunction :: "nat factoryFunction" where
  "constructorFunction =
     \<lparr>fnCall = (\<lambda>args w. (firstArgument args, Suc w)),
      fnSource = ''function f(constructor) { return constructor; }'',
      fnInject = InjectFalsy, fnPlaceholders = PlaceholdersFalsy, fnSingleton = False,
      fnFilename = VUndefined, fnRegisterSourceFile = VUndefined\<rparr>"

definition constructorContainer :: "nat injectorState" where
  "constructorContainer =
     emptyState
       \<lparr>registered :=
          [''f'' \<mapsto>
             decorated constructorFunction
               [\<lparr>name = ''constructor'', isOptional = False, asFactory = False,
                  isPlaceholder = True\<rparr>]]\<rparr>"

text \<open>The same with a parameter \<open>z\<close>.\<close>

definition zetaFunction :: "nat factoryFunction" where
  "zetaFunction =
     \<lparr>fnCall = (\<lambda>args w. (firstArgument args, Suc w)),
      fnSource = ''function f(z) { return z; }'',
      fnInject = InjectFalsy, fnPlaceholders = PlaceholdersFalsy, fnSingleton = False,
      fnFilename = VUndefined, fnRegisterSourceFile = VUndefined\<rparr>"

definition zetaContainer :: "nat injectorState" where
  "zetaContainer =
     emptyState
       \<lparr>registered :=
          [''f'' \<mapsto>
             decorated zetaFunction
               [\<lparr>name = ''z'', isOptional = False, asFactory = False,
                  isPlaceholder = True\<rparr>]]\<rparr>"

text \<open>The container as \<open>factoryDiFactory\<close> returns it, for index.js at
  \<open>libraryFile\<close>.\<close>

definition libraryFile :: string where
  "libraryFile = ''/app/factory-di/src/index.js''"

definition freshContainer :: "nat injectorState" where
  "freshContainer =
     emptyState
       \<lparr>registered :=
          [''factoryDi'' \<mapsto>
             \<lparr>call = (\<lambda>args w. (VObj [(''$filename'', VStr libraryFile)], w)),
              inject = Some [], singleton = True, filename = VStr libraryFile,
              registerSourceFile = VStr libraryFile, placeholderArgs = None,
              isUndefined = False, isSingleton = False\<rparr>]\<rparr>"

text \<open>A container in which \<open>1\<close> was registered and resolved as \<open>z\<close> and then \<open>2\<close>
  was registered as \<open>z\<close>.\<close>

definition staleContainer :: "nat injectorState" where
  "staleContainer = (valueContainer (VNum 2))\<lparr>singletons := [''z'' \<mapsto> VNum 1]\<rparr>"


subsection \<open>The scenarios of index.test.js\<close>

text \<open>\<open>getDiInstance()\<close> of index.test.js: a new container with
  \<open>setSkipTraceErrors(true)\<close>.\<close>

definition testContainer :: "nat injectorState" where
  "testContainer = setSkipTraceErrors freshContainer True"

text \<open>A function of the tests: its source text, its \<open>$inject\<close> and
  \<open>$placeholders\<close>, and a body that reads its arguments and nothing else.\<close>

definition plainFunction ::
  "string \<Rightarrow> injectDecl \<Rightarrow> placeholdersDecl \<Rightarrow> (nat arg list \<Rightarrow> jsval) \<Rightarrow> nat factoryFunction" where
  "plainFunction src declared placeholders body =
     \<lparr>fnCall = (\<lambda>args w. (body args, w)), fnSource = src, fnInject = declared,
      fnPlaceholders = placeholders, fnSingleton = False, fnFilename = VUndefined,
      fnRegisterSourceFile = VUndefined\<rparr>"

text \<open>The \<open>register\<close> calls of a test in order, without options; the first one that
  throws ends the test.\<close>

fun registerAll :: "nat injectorState \<Rightarrow> (string \<times> nat factoryOrItem) list \<Rightarrow> error + nat injectorState" where
  "registerAll st [] = Inr st"
| "registerAll st ((n, f) # rest) =
     (case snd (register st n f None) of
        Inl e \<Rightarrow> Inl e
      | Inr st' \<Rightarrow> registerAll st' rest)"

text \<open>\<open>factoryDi.resolve(name, resolveArgs)\<close> in the container so built: the value,
  or the error thrown (also by a \<open>register\<close> before it). No test asks for the
  factory, and none nests dependencies deeper than the budget given here.\<close>

definition resolveIn ::
  "error + nat injectorState \<Rightarrow> string \<Rightarrow> resolveArgs \<Rightarrow> (error + jsval) option" where
  "resolveIn container n ra =
     (case container of
        Inl e \<Rightarrow> Some (Inl e)
      | Inr st \<Rightarrow>
          (case resolve 3 st n ra False 0 of
             Returned (AsValue v, st') w \<Rightarrow> Some (Inr v)
           | Returned (AsFactory f, st') w \<Rightarrow> None
           | Thrown e w \<Rightarrow> Some (Inl e)
           | Stopped s \<Rightarrow> None))"

text \<open>The functions of the tests.\<close>

definition testFactory :: "nat factoryFunction" where
  "testFactory =
     plainFunction ''function testFactory(resolveArg) { return { resolveArg, test: true }; }''
       InjectFalsy PlaceholdersFalsy
       (\<lambda>args. VObj [(''resolveArg'', firstArgument args), (''test'', VBool True)])"

definition secondArgument :: "'w arg list \<Rightarrow> jsval" where
  "secondArgument args = (case args of a # ArgValue v # rest \<Rightarrow> v | _ \<Rightarrow> VUndefined)"

definition aFactory :: "injectDecl \<Rightarrow> nat factoryFunction" where
  "aFactory declared =
     plainFunction ''function aFactory(c) { return c; }'' declared PlaceholdersFalsy firstArgument"

definition bFactory :: "nat factoryFunction" where
  "bFactory = plainFunction ''function bFactory(c) { return c; }'' InjectTrue PlaceholdersFalsy firstArgument"

definition cOutput :: jsval where
  "cOutput = VObj [(''c'', VBool True)]"

definition cFactory :: "nat factoryFunction" where
  "cFactory = plainFunction ''function cFactory() { return cOutput; }'' InjectFalsy PlaceholdersFalsy (\<lambda>args. cOutput)"

definition callingFactory :: "nat factoryFunction" where
  "callingFactory =
     \<lparr>fnCall = (\<lambda>args w. case args of ArgFactory c # rest \<Rightarrow> c [] w | _ \<Rightarrow> (VUndefined, w)),
      fnSource = ''function aFactory(c) { return c(); }'',
      fnInject = InjectArray [ItemString ''c()''], fnPlaceholders = PlaceholdersFalsy,
      fnSingleton = False, fnFilename = VUndefined, fnRegisterSourceFile = VUndefined\<rparr>"

definition zFactory :: "injectDecl \<Rightarrow> placeholdersDecl \<Rightarrow> nat factoryFunction" where
  "zFactory declared placeholders =
     plainFunction ''function cFactory(z) { return z; }'' declared placeholders firstArgument"

definition dFactory :: "nat factoryFunction" where
  "dFactory =
     plainFunction ''function dFactory(z = 'defaultZ') { return z; }'' InjectTrue PlaceholdersFalsy
       (\<lambda>args. if firstArgument args = VUndefined then VStr ''defaultZ'' else firstArgument args)"

definition yzFactory :: "nat factoryFunction" where
  "yzFactory =
     plainFunction ''function cFactory(y, z) { return {y, z}; }'' InjectTrue
       (PlaceholdersArray [Some ''y?'', Some ''z''])
       (\<lambda>args. VObj [(''y'', firstArgument args), (''z'', secondArgument args)])"

section \<open>Facts for evaluating the examples\<close>

lemmas parse_defs = parseFactoryInject_def parseFactoryInjectBody_def
  parseFactoryPlaceholderArguments_def parseFactoryInjectionArguments_def
  validateFunctionArgumentCount_def expectedArgsCount_def matchFunctionArguments_def
  startsWith_def parenthesized_def invalidIndexes_def safeName_def isNameChar_def
  endsWithOptionalCharacter_def map_filter_simps isWhiteSpace_def isWhiteSpace2_def
  isWhiteSpace3_def placeholderRequest_def buildInjectionRequest_def
  getFactoryPlaceholderOptions_def noPlaceholderOptions_def assignPlaceholderOption_def
  fromPlaceholder_def

lemmas register_defs = register_def registerFactory_def stampFactory_def decorated_def
  functionMeta_def addToHistory_def noOptions_def skipTrace_def emptyState_def Let_def
  safeOptions_def validateFactory_def orElse_def traceRecord_def

lemmas lookup_defs = readProperty_def inherited_def objectPrototypeNames_def

lemmas run_defs = runFactory_def usableArgs_def argsForThisFactory_def
  argsForAllFactories_def safeResolveArgs_def readArg_def lookup_defs

lemmas resolve_defs = resolve_def resolveFactory.simps dependencyInjectFactory.simps
  hasSingleton_def singletonValue_def runFactory_def resolveSingletonAsFactory_def
  getFactoryForUndefined_def curryFactory_def getPlaceholderArguments_def isCyclic_def
  factoryMeta_def emptyObjectMeta_def addToHistory_def orElse_def firstArgument_def
  decorated_def emptyState_def request_def traceRecord_def lookup_defs

declare resolveFactory.simps [simp del]
declare dependencyInjectFactory.simps [simp del]

section \<open>Properties of the runner\<close>

text \<open>A name that is not one of \<open>Object.prototype\<close> is read from the own properties
  alone.\<close>

lemma readProperty_own:
  "nm \<notin> set objectPrototypeNames \<Longrightarrow>
   readProperty own nm = (case own nm of None \<Rightarrow> VUndefined | Some v \<Rightarrow> v)"
  by (simp add: readProperty_def inherited_def split: option.splits)

lemma readProperty_entry: "own nm = Some v \<Longrightarrow> readProperty own nm = v"
  by (simp add: readProperty_def)

text \<open>
  The bag read from the resolve arguments themselves: the entry of the set given under
  the item's name, and where that set has none, the entry of the set given under
  \<open>common\<close>.
\<close>

lemma usableArgs_entries:
  "usableArgs (Some given) itemName k =
     (case (case given itemName of None \<Rightarrow> None | Some own \<Rightarrow> own k) of
        Some v \<Rightarrow> Some v
      | None \<Rightarrow> (case given ''common'' of None \<Rightarrow> None | Some shared \<Rightarrow> shared k))"
  "usableArgs None itemName k = None"
  by (simp_all add: usableArgs_def argsForThisFactory_def argsForAllFactories_def
      safeResolveArgs_def map_add_def split: option.splits)

lemma resolveArgValues_find:
  "resolveArgValues bag ps =
     (case find (\<lambda>p. readArg bag (name p) = VUndefined \<and> \<not> isOptional p) ps of
        None \<Rightarrow> Inr (map (\<lambda>p. readArg bag (name p)) ps)
      | Some p \<Rightarrow> Inl (name p))"
  by (induction ps) (auto split: option.splits)

text \<open>
  The placeholders are bound in their declared order to what the bag reads under their
  names; the first that reads \<open>undefined\<close> and is not optional makes the call fail
  with the error naming the item and that placeholder, and the factory is not called.
\<close>

lemma runFactory_placeholders:
  "placeholderArgs factory = Some ps \<Longrightarrow>
   runFactory factory ra itemName h w =
     (case find (\<lambda>p. readArg (usableArgs ra itemName) (name p) = VUndefined \<and> \<not> isOptional p) ps of
        None \<Rightarrow>
          (case call factory (map (\<lambda>p. ArgValue (readArg (usableArgs ra itemName) (name p))) ps) w of
             (v, w') \<Rightarrow> Returned v w')
      | Some p \<Rightarrow> Thrown (MissingPlaceholder itemName (name p) h) w)"
  by (simp add: runFactory_def resolveArgValues_find comp_def split: option.splits)

text \<open>
  For a placeholder whose name is not one of \<open>Object.prototype\<close>, a bag entry that
  holds \<open>undefined\<close> reads as a missing entry does.
\<close>

lemma undefined_entry_reads_as_missing:
  "k \<notin> set objectPrototypeNames \<Longrightarrow> bag k = Some VUndefined \<Longrightarrow>
   readArg (bag(k := None)) = readArg bag"
  by (auto simp: readArg_def readProperty_def inherited_def fun_eq_iff)

text \<open>
  Claim C6, at a function \<open>f(constructor)\<close> registered without \<open>$inject\<close>, so that its
  one parameter is a required placeholder. Resolved without resolve arguments, the bag
  (the merge of no shared set and no set for \<open>f\<close>) has no value for the placeholder,
  yet the body runs (the counter goes from 0 to 1) and is given what
  \<open>Object.prototype\<close> holds under \<open>constructor\<close>. The same function with the
  parameter \<open>z\<close> fails with the binding error naming \<open>f\<close> and \<open>z\<close>.
\<close>

theorem inherited_name_is_bound_to_placeholder:
  "register emptyState ''f'' (IsFunction constructorFunction) (Some skipTrace)
     = ([], Inr constructorContainer) \<and>
   usableArgs None ''f'' ''constructor'' = None \<and>
   resolve fuel constructorContainer ''f'' None False 0
     = Returned (AsValue (VBuiltin ''constructor''), constructorContainer) 1 \<and>
   register emptyState ''f'' (IsFunction zetaFunction) (Some skipTrace)
     = ([], Inr zetaContainer) \<and>
   resolve fuel zetaContainer ''f'' None False 0
     = Thrown (MissingPlaceholder ''f'' ''z'' [traceRecord ''f'']) 0"
  by (simp add: register_defs parse_defs resolve_defs run_defs constructorFunction_def
      constructorContainer_def zetaFunction_def zetaContainer_def)

text \<open>
  Claim C10, at a required placeholder \<open>constructor\<close> of the item \<open>c\<close>. With the
  entry \<open>constructor: undefined\<close> in the bag the call fails with the missing-placeholder
  error; with no such key in the bag the body runs and is given what
  \<open>Object.prototype\<close> holds under the name. For the placeholder \<open>z\<close> both fail
  alike.
\<close>

theorem undefined_entry_differs_from_absent_key:
  "usableArgs (undefinedEntry ''constructor'') ''c'' ''constructor'' = Some VUndefined \<and>
   usableArgs noEntry ''c'' ''constructor'' = None \<and>
   runFactory (exampleBound ''constructor'' False) (undefinedEntry ''constructor'') ''c'' [] 0
     = Thrown (MissingPlaceholder ''c'' ''constructor'' []) 0 \<and>
   runFactory (exampleBound ''constructor'' False) noEntry ''c'' [] 0
     = Returned (VBuiltin ''constructor'') 1 \<and>
   runFactory (exampleBound ''z'' False) (undefinedEntry ''z'') ''c'' [] 0
     = Thrown (MissingPlaceholder ''c'' ''z'' []) 0 \<and>
   runFactory (exampleBound ''z'' False) noEntry ''c'' [] 0
     = Thrown (MissingPlaceholder ''c'' ''z'' []) 0"
  by (simp add: run_defs exampleBound_def undefinedEntry_def noEntry_def firstArgument_def)

text \<open>
  For \<open>c(z)\<close> with \<open>z\<close> required, the
  item's own \<open>z\<close> wins over the shared one, an own \<open>z\<close> that is \<open>undefined\<close>
  hides the shared one and fails, and for \<open>z\<close> optional \<open>undefined\<close> is passed.
\<close>

lemma exampleArgs_bag:
  "usableArgs (exampleArgs shared own) ''c'' = [''z'' \<mapsto> own]"
  by (auto simp: usableArgs_def exampleArgs_def argsForThisFactory_def argsForAllFactories_def
      safeResolveArgs_def fun_eq_iff map_add_def)

lemma runFactory_example:
  "runFactory (exampleBound ''z'' False) (exampleArgs (VNum 1) (VNum 2)) ''c'' [] 0
     = Returned (VNum 2) 1"
  "runFactory (exampleBound ''z'' False) (exampleArgs (VNum 1) VUndefined) ''c'' [] 0
     = Thrown (MissingPlaceholder ''c'' ''z'' []) 0"
  "runFactory (exampleBound ''z'' True) (exampleArgs (VNum 1) VUndefined) ''c'' [] 0
     = Returned VUndefined 1"
  by (simp_all add: runFactory_def exampleArgs_bag exampleBound_def readArg_def lookup_defs
      firstArgument_def)

section \<open>Properties of the resolver\<close>

text \<open>
  The singleton short cut. Where the cached value of a name is truthy, resolving the
  name returns the wrapper of that value, the state and the world unchanged, whatever the
  registry holds.
\<close>

lemma resolveFactory_cached:
  "hasSingleton st n \<Longrightarrow>
   resolveFactory fuel st n ra h opt w =
     Returned
       \<lparr>resolvedFactory = resolveSingletonAsFactory st n,
        resolvedHistory = h @ [traceRecord n],
        resolvedState = st\<rparr> w"
  by (simp add: resolveFactory.simps addToHistory_def factoryMeta_def
      resolveSingletonAsFactory_def orElse_def traceRecord_def)

lemma runFactory_cached:
  "runFactory (resolveSingletonAsFactory st n) ra nm h w = Returned (singletonValue st n) w"
  by (simp add: runFactory_def resolveSingletonAsFactory_def)

text \<open>
  Where the cached value of a name is falsy, the short cut is not taken: a registered
  singleton without dependencies is run again, and what it produces replaces the cached
  value.
\<close>

lemma resolveFactory_falsy_cached:
  assumes "singletons st n = Some v" and "\<not> truthy v" and "registered st n = Some f"
    and "inject f = Some []" and "singleton f" and "placeholderArgs f = None"
  shows "resolveFactory fuel st n ra h opt w =
     (case call f [] w of
        (v', w') \<Rightarrow>
          Returned
            \<lparr>resolvedFactory =
               resolveSingletonAsFactory (st\<lparr>singletons := (singletons st)(n \<mapsto> v')\<rparr>) n,
             resolvedHistory = addToHistory h n (factoryMeta f),
             resolvedState = st\<lparr>singletons := (singletons st)(n \<mapsto> v')\<rparr>\<rparr> w')"
  using assms
  by (simp add: resolveFactory.simps dependencyInjectFactory.simps hasSingleton_def
      singletonValue_def readProperty_def runFactory_def split: prod.splits)

text \<open>
  The container of the example is what registering \<open>zero\<close> in an empty container
  gives.
\<close>

lemma zeroContainer_registered:
  "register emptyState ''zero'' (IsFunction zeroFunction) (Some skipTrace) = ([], Inr zeroContainer)"
  by (simp add: register_defs parse_defs zeroFunction_def countingSingleton_def zeroContainer_def)

text \<open>
  Claim C1, at a singleton factory that produces \<open>0\<close>. The first resolution runs the
  body (the counter goes from 0 to 1) and caches \<open>0\<close> under the name; the second
  resolution, from the state the first returned, runs the body again (the counter goes
  from 1 to 2): the test \<open>injectorState.singletons[itemName]\<close> is false for a cached
  value that is falsy.
\<close>

theorem falsy_singleton_runs_again:
  "resolve fuel zeroContainer ''zero'' None False 0 = Returned (AsValue (VNum 0), zeroCached) 1 \<and>
   singletons zeroCached ''zero'' = Some (VNum 0) \<and>
   resolve fuel zeroCached ''zero'' None False 1 = Returned (AsValue (VNum 0), zeroCached) 2"
  by (simp add: resolve_defs zeroContainer_def zeroCached_def zeroFunction_def
      countingSingleton_def)

text \<open>
  The container of the next example is what registering \<open>s\<close> and then \<open>a\<close> gives.
\<close>

lemma depContainer_registered:
  "register emptyState ''s'' (IsFunction sevenFunction) (Some skipTrace) = ([], Inr sContainer) \<and>
   register sContainer ''a'' (IsFunction aFunction) (Some skipTrace) = ([], Inr depContainer)"
  by (simp add: register_defs parse_defs sevenFunction_def countingSingleton_def aFunction_def
      passingFunction_def sContainer_def depContainer_def request_def)

text \<open>
  Claim C2, at the factory \<open>a\<close>, not a singleton, that depends on the singleton
  \<open>s\<close>. Resolving \<open>a\<close> runs the body of \<open>s\<close> (the counter goes from 0 to 1), but
  the state returned is the state given: it has no cache entry for \<open>s\<close>, and resolving
  \<open>a\<close> once more from it runs the body of \<open>s\<close> again.
\<close>

theorem singleton_of_dependency_is_dropped:
  "resolveFactory (Suc fuel) depContainer ''a'' None [] False 0 =
     Returned
       \<lparr>resolvedFactory =
          curryFactory (decorated aFunction [request ''s'']) [Bound (ArgValue (VNum 7))],
        resolvedHistory = [traceRecord ''a''],
        resolvedState = depContainer\<rparr> 1 \<and>
   singletons depContainer ''s'' = None \<and>
   resolve (Suc fuel) depContainer ''a'' None False 0
     = Returned (AsValue (VNum 7), depContainer) 1 \<and>
   resolve (Suc fuel) depContainer ''a'' None False 1
     = Returned (AsValue (VNum 7), depContainer) 2"
  by (simp add: resolve_defs depContainer_def sevenFunction_def aFunction_def
      countingSingleton_def passingFunction_def composeArgs.simps)


text \<open>
  The cycle check: a dependency that is not a placeholder, that is the item itself or is
  named in the history, and whose cached value (in the state the function was entered
  with) is not truthy ends the resolution with the cyclic-dependency error naming it; the
  trace is the history with a record for it.
\<close>

lemma injectItems_cycle_error:
  "\<not> isPlaceholder r \<Longrightarrow> isCyclic n h (name r) \<Longrightarrow> \<not> hasSingleton st (name r) \<Longrightarrow>
   injectItems fuel st u n ra h (r # rest) w =
     Thrown (CyclicDependency (name r) (h @ [traceRecord (name r)])) w"
  by (simp add: addToHistory_def emptyObjectMeta_def orElse_def traceRecord_def)

text \<open>
  With \<open>a\<close> depending on \<open>b\<close> and \<open>b\<close> on \<open>a\<close>, resolving \<open>a\<close> fails with the
  error naming \<open>a\<close>.
\<close>

lemma cycle_example:
  "resolve (Suc fuel) cycleContainer ''a'' None False 0 =
     Thrown (CyclicDependency ''a'' [traceRecord ''a'', traceRecord ''b'', traceRecord ''a'']) 0"
  by (simp add: resolve_defs cycleContainer_def cycleA_def cycleB_def passingFunction_def)

text \<open>
  The container of the next example is reached by registering a value as \<open>z\<close>,
  resolving \<open>z\<close>, and registering a factory that depends on \<open>z\<close> under the same
  name.
\<close>

lemma selfContainer_registered:
  "register emptyState ''z'' (NotFunction v) (Some skipTrace) = ([], Inr (valueContainer v)) \<and>
   resolve 1 (valueContainer v) ''z'' None False 0 = Returned (AsValue v, valueCached v) 0 \<and>
   register (valueCached v) ''z'' (IsFunction selfFunction) (Some skipTrace)
     = ([], Inr (selfContainer v))"
  by (simp add: register_defs parse_defs resolve_defs itemFactory_def itemFactorySource_def
      valueContainer_def valueCached_def selfContainer_def selfFunction_def passingFunction_def)

text \<open>
  Claim C3, at a cyclic dependency \<open>z\<close> that is cached. With \<open>0\<close> cached for \<open>z\<close>,
  resolving \<open>z\<close> raises the cyclic-dependency error for the cached name; with \<open>1\<close>
  cached it returns the cached value.
\<close>

theorem falsy_cached_singleton_raises_cycle:
  "singletons (selfContainer (VNum 0)) ''z'' = Some (VNum 0) \<and>
   resolve fuel (selfContainer (VNum 0)) ''z'' None False 0 =
     Thrown (CyclicDependency ''z'' [traceRecord ''z'', traceRecord ''z'']) 0 \<and>
   resolve fuel (selfContainer (VNum 1)) ''z'' None False 0 =
     Returned (AsValue (VNum 1), selfContainer (VNum 1)) 0"
  by (simp add: resolve_defs selfContainer_def selfFunction_def passingFunction_def)

text \<open>
  The history a resolution returns is the history it was given and one record, for the
  resolved name.
\<close>

lemma resolveFactory_history:
  "resolveFactory fuel st n ra h opt w = Returned r w' \<Longrightarrow>
   resolvedHistory r =
     addToHistory h n
       (if hasSingleton st n then (VUndefined, VUndefined, False)
        else (case registered st n of
                None \<Rightarrow> (VUndefined, VUndefined, True)
              | Some f \<Rightarrow> factoryMeta f))"
  by (auto simp: resolveFactory.simps factoryMeta_def resolveSingletonAsFactory_def
      getFactoryForUndefined_def
      split: if_splits option.splits outcome.splits)

text \<open>
  Counterexample for C4. Resolving \<open>a\<close>, which depends on \<open>s\<close>, returns a history
  with the one name \<open>a\<close>, although \<open>s\<close> was resolved on the way: the nested
  resolution of \<open>s\<close> (second line) returns the record of \<open>s\<close> after that of its
  ancestor, and \<open>dependencyInjectFactory\<close> does not keep that history.
\<close>

theorem returned_history_omits_dependencies:
  "map recName (returnedHistory (resolveFactory 1 depContainer ''a'' None [] False 0)) = [''a''] \<and>
   map recName (returnedHistory (resolveFactory 0 depContainer ''s'' None [traceRecord ''a''] False 0))
     = [''a'', ''s'']"
  by (simp add: returnedHistory_def resolve_defs depContainer_def sevenFunction_def aFunction_def
      countingSingleton_def passingFunction_def)

text \<open>
  Claim C4, amended. The history that \<open>resolveFactory\<close> returns is the history it was
  given (the ancestors of the name; empty for a call of \<open>resolve\<close>) followed by exactly
  one record, that of the resolved name. Records of the dependencies resolved on the way
  are not part of it.
\<close>

theorem returned_history_is_given_history_and_item:
  "resolveFactory fuel st n ra h opt w = Returned r w' \<Longrightarrow>
   resolvedHistory r =
     h @ [\<lparr>recName = n,
            filepath =
              (if hasSingleton st n then VNull
               else (case registered st n of
                       None \<Rightarrow> VNull
                     | Some f \<Rightarrow> orElse (filename f) VNull)),
            registerSource =
              (if hasSingleton st n then VNull
               else (case registered st n of
                       None \<Rightarrow> VNull
                     | Some f \<Rightarrow> orElse (registerSourceFile f) VNull)),
            notFound =
              (if hasSingleton st n then False
               else (case registered st n of
                       None \<Rightarrow> True
                     | Some f \<Rightarrow> isUndefined f))\<rparr>]"
  by (drule resolveFactory_history)
     (auto simp: addToHistory_def factoryMeta_def orElse_def split: option.splits)

text \<open>
  Resolving \<open>a\<close> in the example.
\<close>

lemma depContainer_resolve_a:
  "resolveFactory 1 depContainer ''a'' None [] False 0 =
     Returned
       \<lparr>resolvedFactory =
          curryFactory (decorated aFunction [request ''s'']) [Bound (ArgValue (VNum 7))],
        resolvedHistory = [traceRecord ''a''],
        resolvedState = depContainer\<rparr> 1"
  by (simp add: resolve_defs depContainer_def sevenFunction_def aFunction_def
      countingSingleton_def passingFunction_def)

text \<open>
  Witness for C4 as amended: resolving \<open>a\<close> at the top level returns the one record of
  \<open>a\<close>.
\<close>

theorem returned_history_is_given_history_and_item_witness:
  "resolveFactory 1 depContainer ''a'' None [] False 0 =
     Returned
       \<lparr>resolvedFactory =
          curryFactory (decorated aFunction [request ''s'']) [Bound (ArgValue (VNum 7))],
        resolvedHistory = [traceRecord ''a''],
        resolvedState = depContainer\<rparr> 1 \<and>
   [traceRecord ''a''] =
     [] @ [\<lparr>recName = ''a'', filepath = VNull, registerSource = VNull, notFound = False\<rparr>]"
  using returned_history_is_given_history_and_item [OF depContainer_resolve_a]
    depContainer_resolve_a
  by (simp add: traceRecord_def)

text \<open>
  A name that has no registered factory and no cached value, and that is not a name of
  \<open>Object.prototype\<close>: when the request is optional, \<open>resolveFactory\<close> returns
  the factory for \<open>undefined\<close>, with the history extended by a record of the name
  marked not found, and the state unchanged; when it is not optional,
  \<open>resolveFactory\<close> throws the not-registered error for the name, whose trace ends
  with the record of the name.
\<close>

lemma resolveFactory_unregistered:
  assumes "registered st n = None" and "singletons st n = None"
    and "n \<notin> set objectPrototypeNames"
  shows "resolveFactory fuel st n ra h True w =
     Returned
       \<lparr>resolvedFactory = getFactoryForUndefined,
        resolvedHistory =
          h @ [\<lparr>recName = n, filepath = VNull, registerSource = VNull, notFound = True\<rparr>],
        resolvedState = st\<rparr> w"
    and "resolveFactory fuel st n ra h False w =
     Thrown (NotRegistered n
       (h @ [\<lparr>recName = n, filepath = VNull, registerSource = VNull, notFound = False\<rparr>])) w"
  using assms
  by (simp_all add: resolveFactory.simps hasSingleton_def singletonValue_def readProperty_def
      inherited_def addToHistory_def factoryMeta_def emptyObjectMeta_def
      getFactoryForUndefined_def orElse_def)

lemma runFactory_undefined:
  "runFactory getFactoryForUndefined ra nm h w = Returned VUndefined w"
  by (simp add: runFactory_def getFactoryForUndefined_def)

text \<open>
  Claim C5, at the name \<open>constructor\<close> in a container as \<open>factoryDiFactory\<close>
  returns it, where the name has no registered factory and no cached value. Resolving it
  does not fail with the not-registered error: the test
  \<open>injectorState.singletons[itemName]\<close> finds what \<open>Object.prototype\<close> holds under
  the name, and \<open>resolve\<close> returns that as the cached value of the name. Requested
  as optional, the name is resolved to the wrapper of that value and not to the factory
  for \<open>undefined\<close>, and its record is not marked not found. The name \<open>ghost\<close>
  fails with the not-registered error.
\<close>

theorem inherited_name_is_resolved_from_cache:
  "factoryDiFactory libraryFile = ([], Inr freshContainer) \<and>
   registered freshContainer ''constructor'' = None \<and>
   singletons freshContainer ''constructor'' = None \<and>
   resolve fuel freshContainer ''constructor'' None False 0
     = Returned (AsValue (VBuiltin ''constructor''), freshContainer) 0 \<and>
   resolveFactory fuel freshContainer ''constructor'' None [] True 0
     = Returned
         \<lparr>resolvedFactory = resolveSingletonAsFactory freshContainer ''constructor'',
          resolvedHistory = [traceRecord ''constructor''],
          resolvedState = freshContainer\<rparr> 0 \<and>
   isSingleton (resolveSingletonAsFactory freshContainer ''constructor'') \<and>
   \<not> isUndefined (resolveSingletonAsFactory freshContainer ''constructor'') \<and>
   resolve fuel freshContainer ''ghost'' None False 0
     = Thrown (NotRegistered ''ghost'' [traceRecord ''ghost'']) 0"
  by (simp add: factoryDiFactory_def register_defs parse_defs resolve_defs itemFactory_def
      itemFactorySource_def libraryFile_def freshContainer_def)
section \<open>The depth budget\<close>

text \<open>
  The equations of \<open>injectItems\<close> are unfolded by hand from here on.
\<close>

declare injectItems.simps [simp del]

lemma fuelStable_refl: "fuelStable x x"
  by (simp add: fuelStable_def)

lemma fuelStable_case:
  assumes "fuelStable a b" and "\<And>x w. fuelStable (f x w) (g x w)"
  shows "fuelStable
     (case a of Stopped s \<Rightarrow> Stopped s | Thrown e w \<Rightarrow> Thrown e w | Returned x w \<Rightarrow> f x w)
     (case b of Stopped s \<Rightarrow> Stopped s | Thrown e w \<Rightarrow> Thrown e w | Returned x w \<Rightarrow> g x w)"
  using assms by (cases a) (auto simp: fuelStable_def)

lemma injectItems_placeholder:
  "isPlaceholder i \<Longrightarrow>
   injectItems fuel st0 u n ra h (i # items) w =
     (case injectItems fuel st0 u n ra h items w of
        Stopped s \<Rightarrow> Stopped s
      | Thrown e w' \<Rightarrow> Thrown e w'
      | Returned deps w' \<Rightarrow> Returned (Placeholder # fst deps, snd deps) w')"
  by (simp add: injectItems.simps(2))

lemma injectItems_out_of_fuel:
  "\<not> isPlaceholder i \<Longrightarrow> \<not> (isCyclic n h (name i) \<and> \<not> hasSingleton st0 (name i)) \<Longrightarrow>
   injectItems 0 st0 u n ra h (i # items) w = Stopped OutOfFuel"
  by (simp add: injectItems.simps(2))

lemma injectItems_as_factory:
  "\<not> isPlaceholder i \<Longrightarrow> \<not> (isCyclic n h (name i) \<and> \<not> hasSingleton st0 (name i)) \<Longrightarrow>
   asFactory i \<Longrightarrow>
   injectItems (Suc depth) st0 u n ra h (i # items) w =
     (case resolveFactory depth u (name i) ra h (isOptional i) w of
        Stopped s \<Rightarrow> Stopped s
      | Thrown e w1 \<Rightarrow> Thrown e w1
      | Returned res w1 \<Rightarrow>
          (case injectItems (Suc depth) st0 (resolvedState res) n ra h items w1 of
             Stopped s \<Rightarrow> Stopped s
           | Thrown e w2 \<Rightarrow> Thrown e w2
           | Returned deps w2 \<Rightarrow>
               Returned (Bound (asArgument (resolvedFactory res)) # fst deps, snd deps) w2))"
  by (auto simp: injectItems.simps(2) cong: outcome.case_cong)

lemma injectItems_as_value:
  "\<not> isPlaceholder i \<Longrightarrow> \<not> (isCyclic n h (name i) \<and> \<not> hasSingleton st0 (name i)) \<Longrightarrow>
   \<not> asFactory i \<Longrightarrow>
   injectItems (Suc depth) st0 u n ra h (i # items) w =
     (case resolveFactory depth u (name i) ra h (isOptional i) w of
        Stopped s \<Rightarrow> Stopped s
      | Thrown e w1 \<Rightarrow> Thrown e w1
      | Returned res w1 \<Rightarrow>
          (case runFactory (resolvedFactory res) ra (name i) h w1 of
             Stopped s \<Rightarrow> Stopped s
           | Thrown e w2 \<Rightarrow> Thrown e w2
           | Returned v w2 \<Rightarrow>
               (case injectItems (Suc depth) st0 (resolvedState res) n ra h items w2 of
                  Stopped s \<Rightarrow> Stopped s
                | Thrown e w3 \<Rightarrow> Thrown e w3
                | Returned deps w3 \<Rightarrow>
                    Returned (Bound (ArgValue v) # fst deps, snd deps) w3)))"
  by (auto simp: injectItems.simps(2) cong: outcome.case_cong)

lemma injectItems_stable:
  assumes r: "\<And>st n h opt (w :: 'w). fuelStable (resolveFactory d st n ra h opt w)
                 (resolveFactory (Suc d) st n ra h opt w)"
  shows "fuelStable (injectItems (Suc d) st0 u n ra h items (w :: 'w))
           (injectItems (Suc (Suc d)) st0 u n ra h items w)"
proof (induction items arbitrary: u w)
  case Nil
  show ?case by (simp add: injectItems.simps(1) fuelStable_refl)
next
  case (Cons i items)
  show ?case
  proof (cases "isPlaceholder i")
    case True
    show ?thesis
      unfolding injectItems_placeholder [OF True]
      by (rule fuelStable_case [OF Cons.IH fuelStable_refl])
  next
    case False
    show ?thesis
    proof (cases "isCyclic n h (name i) \<and> \<not> hasSingleton st0 (name i)")
      case True
      then show ?thesis
        using False by (simp add: injectItems.simps(2) fuelStable_refl)
    next
      case nc: False
      show ?thesis
      proof (cases "asFactory i")
        case True
        show ?thesis
          unfolding injectItems_as_factory [OF False nc True]
          by (rule fuelStable_case [OF r]) (rule fuelStable_case [OF Cons.IH fuelStable_refl])
      next
        case af: False
        show ?thesis
          unfolding injectItems_as_value [OF False nc af]
          by (rule fuelStable_case [OF r])
             (rule fuelStable_case [OF fuelStable_refl],
              rule fuelStable_case [OF Cons.IH fuelStable_refl])
      qed
    qed
  qed
qed

lemma injectItems_stable_zero:
  "fuelStable (injectItems 0 st0 u n ra h items w) (injectItems (Suc 0) st0 u n ra h items w)"
proof (induction items arbitrary: u w)
  case Nil
  show ?case by (simp add: injectItems.simps(1) fuelStable_refl)
next
  case (Cons i items)
  show ?case
  proof (cases "isPlaceholder i")
    case True
    show ?thesis
      unfolding injectItems_placeholder [OF True]
      by (rule fuelStable_case [OF Cons.IH fuelStable_refl])
  next
    case False
    show ?thesis
    proof (cases "isCyclic n h (name i) \<and> \<not> hasSingleton st0 (name i)")
      case True
      then show ?thesis
        using False by (simp add: injectItems.simps(2) fuelStable_refl)
    next
      case nc: False
      show ?thesis
        unfolding injectItems_out_of_fuel [OF False nc]
        by (simp add: fuelStable_def)
    qed
  qed
qed

lemma dependencyInjectFactory_stable:
  assumes i: "\<And>st0 u n h items (w :: 'w). fuelStable (injectItems k st0 u n ra h items w)
             (injectItems (Suc k) st0 u n ra h items w)"
  shows "fuelStable (dependencyInjectFactory k st f n ra h (w :: 'w))
           (dependencyInjectFactory (Suc k) st f n ra h w)"
proof (cases "inject f")
  case None
  then show ?thesis by (simp add: dependencyInjectFactory.simps fuelStable_refl)
next
  case (Some items)
  show ?thesis
  proof (cases items)
    case Nil
    then show ?thesis using Some by (simp add: dependencyInjectFactory.simps fuelStable_refl)
  next
    case (Cons a list)
    have e: "\<And>fuel. dependencyInjectFactory fuel st f n ra h w =
        (case injectItems fuel st st n ra h (a # list) w of
           Stopped s \<Rightarrow> Stopped s
         | Thrown e w' \<Rightarrow> Thrown e w'
         | Returned deps w' \<Rightarrow> Returned (curryFactory f (fst deps), snd deps) w')"
      using Some Cons by (simp add: dependencyInjectFactory.simps)
    show ?thesis
      unfolding e by (rule fuelStable_case [OF i fuelStable_refl])
  qed
qed

lemma resolveFactory_registered:
  "\<not> hasSingleton st n \<Longrightarrow> registered st n = Some f \<Longrightarrow>
   resolveFactory fuel st n ra h opt w =
     (case dependencyInjectFactory fuel st f n ra (addToHistory h n (factoryMeta f)) w of
        Stopped s \<Rightarrow> Stopped s
      | Thrown e w' \<Rightarrow> Thrown e w'
      | Returned injectData w' \<Rightarrow>
          (if singleton (fst injectData) then
             (case runFactory (fst injectData) ra n (addToHistory h n (factoryMeta f)) w' of
                Stopped s \<Rightarrow> Stopped s
              | Thrown e w'' \<Rightarrow> Thrown e w''
              | Returned singletonInstance w'' \<Rightarrow>
                  Returned
                    \<lparr>resolvedFactory =
                       resolveSingletonAsFactory
                         ((snd injectData)
                            \<lparr>singletons :=
                               (singletons (snd injectData))(n \<mapsto> singletonInstance)\<rparr>) n,
                     resolvedHistory = addToHistory h n (factoryMeta f),
                     resolvedState =
                       (snd injectData)
                         \<lparr>singletons :=
                            (singletons (snd injectData))(n \<mapsto> singletonInstance)\<rparr>\<rparr> w'')
           else
             Returned
               \<lparr>resolvedFactory = fst injectData,
                resolvedHistory = addToHistory h n (factoryMeta f),
                resolvedState = st\<rparr> w'))"
  by (simp add: resolveFactory.simps)

lemma resolveFactory_stable_step:
  assumes d: "\<And>st f n h (w :: 'w). fuelStable (dependencyInjectFactory k st f n ra h w)
             (dependencyInjectFactory (Suc k) st f n ra h w)"
  shows "fuelStable (resolveFactory k st n ra h opt (w :: 'w))
           (resolveFactory (Suc k) st n ra h opt w)"
proof (cases "hasSingleton st n")
  case True
  then show ?thesis by (simp add: resolveFactory.simps fuelStable_refl)
next
  case False
  show ?thesis
  proof (cases "registered st n")
    case None
    then show ?thesis using False by (simp add: resolveFactory.simps fuelStable_refl)
  next
    case (Some f)
    show ?thesis
      unfolding resolveFactory_registered [OF False Some]
      by (rule fuelStable_case [OF d fuelStable_refl])
  qed
qed

lemma resolveFactory_stable:
  "fuelStable (resolveFactory k st n ra h opt w) (resolveFactory (Suc k) st n ra h opt w)"
proof (induction k arbitrary: st n h opt w)
  case 0
  show ?case
    by (rule resolveFactory_stable_step, rule dependencyInjectFactory_stable,
        rule injectItems_stable_zero)
next
  case (Suc k)
  show ?case
    by (rule resolveFactory_stable_step, rule dependencyInjectFactory_stable,
        rule injectItems_stable, rule Suc.IH)
qed

text \<open>A result reached within a depth budget is the result for every larger budget.\<close>

lemma resolveFactory_more_fuel:
  "resolveFactory k st n ra h opt w \<noteq> Stopped OutOfFuel \<Longrightarrow>
   resolveFactory (k + m) st n ra h opt w = resolveFactory k st n ra h opt w"
proof (induction m)
  case 0
  then show ?case by simp
next
  case (Suc m)
  then show ?case
    using resolveFactory_stable [of "k + m" st n ra h opt w]
    by (simp add: fuelStable_def)
qed

lemma resolve_more_fuel:
  "resolve k st n ra asF w \<noteq> Stopped OutOfFuel \<Longrightarrow>
   resolve (k + m) st n ra asF w = resolve k st n ra asF w"
proof -
  assume a: "resolve k st n ra asF w \<noteq> Stopped OutOfFuel"
  show ?thesis
  proof (cases "n = []")
    case True
    then show ?thesis by (simp add: resolve_def)
  next
    case False
    then have "resolveFactory k st n ra [] False w \<noteq> Stopped OutOfFuel"
      using a by (auto simp: resolve_def)
    then have "resolveFactory (k + m) st n ra [] False w = resolveFactory k st n ra [] False w"
      by (rule resolveFactory_more_fuel)
    then show ?thesis by (simp add: resolve_def)
  qed
qed

text \<open>
  A dependency whose cached value is truthy, in the state the function was entered with
  and in the current one, is bound to the cached value; the cycle check does not stop
  it.
\<close>

lemma injectItems_cached_dependency:
  assumes "\<not> isPlaceholder i" and "\<not> asFactory i"
    and "hasSingleton st0 (name i)" and "hasSingleton u (name i)"
  shows "injectItems (Suc depth) st0 u n ra h (i # items) w =
     (case injectItems (Suc depth) st0 u n ra h items w of
        Stopped s \<Rightarrow> Stopped s
      | Thrown e w' \<Rightarrow> Thrown e w'
      | Returned deps w' \<Rightarrow>
          Returned (Bound (ArgValue (singletonValue u (name i))) # fst deps, snd deps) w')"
proof -
  have nc: "\<not> (isCyclic n h (name i) \<and> \<not> hasSingleton st0 (name i))"
    using assms(3) by simp
  show ?thesis
    unfolding injectItems_as_value [OF assms(1) nc assms(2)]
    by (simp add: resolveFactory_cached [OF assms(4)] runFactory_cached)
qed

section \<open>What a resolution leaves in place\<close>

lemma keepsState_refl: "keepsState st st"
  by (auto simp: keepsState_def)

lemma keepsState_trans: "keepsState a b \<Longrightarrow> keepsState b c \<Longrightarrow> keepsState a c"
  unfolding keepsState_def by (simp add: subset_iff) blast

lemma keepsState_cached:
  "keepsState st st' \<Longrightarrow> cachedAreRegistered st \<Longrightarrow> cachedAreRegistered st'"
  unfolding keepsState_def cachedAreRegistered_def by (simp add: subset_iff) blast

lemma keeps_Stopped:
  "keeps st (Stopped s) sel = (s = OutOfFuel \<or> \<not> cachedAreRegistered st)"
  by (cases s) (auto simp: keeps_def)

lemma keeps_from:
  "keepsState u u' \<Longrightarrow> keeps u' out sel \<Longrightarrow> keeps u out sel"
  by (cases out)
     (auto simp: keeps_def keeps_Stopped split: stop.splits
       intro: keepsState_trans dest: keepsState_cached)

lemma keeps_case:
  assumes "keeps st a sel" and "\<And>x w. a = Returned x w \<Longrightarrow> keepsState st (sel x) \<Longrightarrow> keeps st (f x w) sel'"
  shows "keeps st
     (case a of Stopped s \<Rightarrow> Stopped s | Thrown e w \<Rightarrow> Thrown e w | Returned x w \<Rightarrow> f x w) sel'"
  using assms by (cases a) (auto simp: keeps_def keeps_Stopped split: stop.splits)

lemma runFactory_not_stopped: "runFactory f ra n h w \<noteq> Stopped s"
  by (auto simp: runFactory_def split: option.splits sum.splits prod.splits)

lemma injectItems_keeps:
  assumes r: "\<And>st n h opt (w :: 'w). keeps st (resolveFactory d st n ra h opt w) resolvedState"
  shows "keeps u (injectItems (Suc d) st0 u n ra h items (w :: 'w)) snd"
proof (induction items arbitrary: u w)
  case Nil
  show ?case by (simp add: injectItems.simps(1) keeps_def keepsState_refl)
next
  case (Cons i items)
  have rest: "\<And>u' f (w' :: 'w). keepsState u u' \<Longrightarrow>
      keeps u (case injectItems (Suc d) st0 u' n ra h items w' of
                 Stopped s \<Rightarrow> Stopped s
               | Thrown e w2 \<Rightarrow> Thrown e w2
               | Returned deps w2 \<Rightarrow> Returned (f deps, snd deps) w2) snd"
  proof -
    fix u' f and w' :: 'w
    assume k: "keepsState u u'"
    show "keeps u (case injectItems (Suc d) st0 u' n ra h items w' of
                 Stopped s \<Rightarrow> Stopped s
               | Thrown e w2 \<Rightarrow> Thrown e w2
               | Returned deps w2 \<Rightarrow> Returned (f deps, snd deps) w2) snd"
      using keeps_from [OF k Cons.IH [of u' w']]
      by (cases "injectItems (Suc d) st0 u' n ra h items w'")
         (auto simp: keeps_def keeps_Stopped split: stop.splits)
  qed
  show ?case
  proof (cases "isPlaceholder i")
    case True
    show ?thesis
      unfolding injectItems_placeholder [OF True]
      by (rule rest [OF keepsState_refl])
  next
    case False
    show ?thesis
    proof (cases "isCyclic n h (name i) \<and> \<not> hasSingleton st0 (name i)")
      case True
      then show ?thesis
        using False by (simp add: injectItems.simps(2) keeps_def)
    next
      case nc: False
      show ?thesis
      proof (cases "asFactory i")
        case True
        show ?thesis
          unfolding injectItems_as_factory [OF False nc True]
        proof (rule keeps_case [OF r])
          fix x and w1 :: 'w
          assume "keepsState u (resolvedState x)"
          then show "keeps u
              (case injectItems (Suc d) st0 (resolvedState x) n ra h items w1 of
                 Stopped s \<Rightarrow> Stopped s
               | Thrown e w2 \<Rightarrow> Thrown e w2
               | Returned deps w2 \<Rightarrow>
                   Returned (Bound (asArgument (resolvedFactory x)) # fst deps, snd deps) w2) snd"
            by (rule rest)
        qed
      next
        case af: False
        show ?thesis
          unfolding injectItems_as_value [OF False nc af]
        proof (rule keeps_case [OF r])
          fix x and w1 :: 'w
          assume k: "keepsState u (resolvedState x)"
          show "keeps u
              (case runFactory (resolvedFactory x) ra (name i) h w1 of
                 Stopped s \<Rightarrow> Stopped s
               | Thrown e w2 \<Rightarrow> Thrown e w2
               | Returned v w2 \<Rightarrow>
                   (case injectItems (Suc d) st0 (resolvedState x) n ra h items w2 of
                      Stopped s \<Rightarrow> Stopped s
                    | Thrown e w3 \<Rightarrow> Thrown e w3
                    | Returned deps w3 \<Rightarrow>
                        Returned (Bound (ArgValue v) # fst deps, snd deps) w3)) snd"
            using rest [OF k] runFactory_not_stopped [of "resolvedFactory x" ra "name i" h w1]
            by (cases "runFactory (resolvedFactory x) ra (name i) h w1") (auto simp: keeps_def)
        qed
      qed
    qed
  qed
qed


lemma injectItems_keeps_zero:
  "keeps u (injectItems 0 st0 u n ra h items (w :: 'w)) snd"
proof (induction items arbitrary: u w)
  case Nil
  show ?case by (simp add: injectItems.simps(1) keeps_def keepsState_refl)
next
  case (Cons i items)
  show ?case
  proof (cases "isPlaceholder i")
    case True
    show ?thesis
      unfolding injectItems_placeholder [OF True]
      using Cons.IH [of u w]
      by (cases "injectItems 0 st0 u n ra h items w")
         (auto simp: keeps_def keeps_Stopped split: stop.splits)
  next
    case False
    show ?thesis
    proof (cases "isCyclic n h (name i) \<and> \<not> hasSingleton st0 (name i)")
      case True
      then show ?thesis
        using False by (simp add: injectItems.simps(2) keeps_def)
    next
      case nc: False
      show ?thesis
        unfolding injectItems_out_of_fuel [OF False nc] by (simp add: keeps_Stopped)
    qed
  qed
qed

lemma dependencyInjectFactory_keeps:
  assumes i: "\<And>st0 u n h items (w :: 'w). keeps u (injectItems k st0 u n ra h items w) snd"
  shows "keeps st (dependencyInjectFactory k st f n ra h (w :: 'w)) snd"
proof (cases "inject f")
  case None
  then show ?thesis by (simp add: dependencyInjectFactory.simps keeps_def keepsState_refl)
next
  case (Some items)
  show ?thesis
  proof (cases items)
    case Nil
    then show ?thesis
      using Some by (simp add: dependencyInjectFactory.simps keeps_def keepsState_refl)
  next
    case (Cons a list)
    show ?thesis
      using Some Cons i [of st st n h "a # list" w]
      by (cases "injectItems k st st n ra h (a # list) w")
         (auto simp: dependencyInjectFactory.simps keeps_def keeps_Stopped split: stop.splits)
  qed
qed

lemma keepsState_cache:
  "\<not> hasSingleton st n \<Longrightarrow> registered st n = Some f \<Longrightarrow> keepsState st st' \<Longrightarrow>
   keepsState st (st'\<lparr>singletons := (singletons st')(n \<mapsto> v)\<rparr>)"
  by (auto simp: keepsState_def hasSingleton_def singletonValue_def readProperty_def)

lemma inherited_not_cached:
  "\<not> hasSingleton st n \<Longrightarrow> registered st n = None \<Longrightarrow> truthy (inherited n) \<Longrightarrow>
   \<not> cachedAreRegistered st"
  by (auto simp: hasSingleton_def singletonValue_def readProperty_def cachedAreRegistered_def
      split: option.splits)

lemma resolveFactory_keeps_step:
  assumes d: "\<And>st f n h (w :: 'w). keeps st (dependencyInjectFactory k st f n ra h w) snd"
  shows "keeps st (resolveFactory k st n ra h opt (w :: 'w)) resolvedState"
proof (cases "hasSingleton st n")
  case True
  then show ?thesis by (simp add: resolveFactory.simps keeps_def keepsState_refl)
next
  case False
  show ?thesis
  proof (cases "registered st n")
    case None
    then show ?thesis
      using False inherited_not_cached [OF False None]
      by (simp add: resolveFactory.simps keeps_def keepsState_refl)
  next
    case (Some f)
    show ?thesis
      unfolding resolveFactory_registered [OF False Some]
    proof (rule keeps_case [OF d])
      fix x :: "'w decoratedFactory \<times> 'w injectorState" and w' :: 'w
      assume k: "keepsState st (snd x)"
      show "keeps st
          (if singleton (fst x) then
             (case runFactory (fst x) ra n (addToHistory h n (factoryMeta f)) w' of
                Stopped s \<Rightarrow> Stopped s
              | Thrown e w'' \<Rightarrow> Thrown e w''
              | Returned singletonInstance w'' \<Rightarrow>
                  Returned
                    \<lparr>resolvedFactory =
                       resolveSingletonAsFactory
                         ((snd x)\<lparr>singletons := (singletons (snd x))(n \<mapsto> singletonInstance)\<rparr>) n,
                     resolvedHistory = addToHistory h n (factoryMeta f),
                     resolvedState =
                       (snd x)\<lparr>singletons := (singletons (snd x))(n \<mapsto> singletonInstance)\<rparr>\<rparr> w'')
           else
             Returned
               \<lparr>resolvedFactory = fst x,
                resolvedHistory = addToHistory h n (factoryMeta f),
                resolvedState = st\<rparr> w') resolvedState"
        using keepsState_cache [OF False Some k]
          runFactory_not_stopped [of "fst x" ra n "addToHistory h n (factoryMeta f)" w']
        by (cases "runFactory (fst x) ra n (addToHistory h n (factoryMeta f)) w'")
           (auto simp: keeps_def keepsState_refl)
    qed
  qed
qed

lemma resolveFactory_keeps:
  "keeps st (resolveFactory k st n ra h opt (w :: 'w)) resolvedState"
proof (induction k arbitrary: st n h opt w)
  case 0
  show ?case
    by (rule resolveFactory_keeps_step, rule dependencyInjectFactory_keeps,
        rule injectItems_keeps_zero)
next
  case (Suc k)
  show ?case
    by (rule resolveFactory_keeps_step, rule dependencyInjectFactory_keeps,
        rule injectItems_keeps, rule Suc.IH)
qed

text \<open>
  A resolution changes neither the registry nor the meta data, and a name whose cached
  value is truthy keeps a truthy cached value.
\<close>

lemma resolveFactory_keeps_state:
  "resolveFactory k st n ra h opt w = Returned r w' \<Longrightarrow> keepsState st (resolvedState r)"
  using resolveFactory_keeps [of st k n ra h opt w] by (simp add: keeps_def)

section \<open>The states of a container\<close>

text \<open>
  In the states that the operations of a container reach from a new container, a name
  with a cached value has a registered factory: the resolver caches a value only under
  the name of the registered factory that produced it, and no operation removes a
  factory from the registry.
\<close>

lemma emptyState_cached: "cachedAreRegistered emptyState"
  by (simp add: cachedAreRegistered_def emptyState_def)

lemma registerFactory_state:
  "snd (registerFactory st n f opts) = Inr st' \<Longrightarrow>
   singletons st' = singletons st \<and> dom (registered st') = insert n (dom (registered st))"
  by (auto simp: registerFactory_def Let_def split: if_splits option.splits sum.splits)

lemma register_cached:
  assumes "cachedAreRegistered st" and "snd (register st n item options) = Inr st'"
  shows "cachedAreRegistered st'"
proof -
  obtain f opts where "snd (registerFactory st n f opts) = Inr st'"
    using assms(2) by (auto simp: register_def split: if_splits)
  then have "singletons st' = singletons st"
    and "dom (registered st') = insert n (dom (registered st))"
    using registerFactory_state by blast+
  then show ?thesis
    using assms(1) by (auto simp: cachedAreRegistered_def)
qed

lemma clearSingletons_cached: "cachedAreRegistered (clearSingletons st)"
  by (simp add: cachedAreRegistered_def clearSingletons_def)

lemma setRegisterSource_cached:
  "cachedAreRegistered st \<Longrightarrow> cachedAreRegistered (snd (setRegisterSource st src))"
  by (simp add: cachedAreRegistered_def setRegisterSource_def)

lemma setSkipTraceErrors_cached:
  "cachedAreRegistered st \<Longrightarrow> cachedAreRegistered (setSkipTraceErrors st skip)"
  by (simp add: cachedAreRegistered_def setSkipTraceErrors_def)

lemma resolveFactory_cached_state:
  "cachedAreRegistered st \<Longrightarrow> resolveFactory k st n ra h opt w = Returned r w' \<Longrightarrow>
   cachedAreRegistered (resolvedState r)"
  by (rule keepsState_cached [OF resolveFactory_keeps_state])

lemma resolve_cached:
  "cachedAreRegistered st \<Longrightarrow> resolve k st n ra asF w = Returned (x, st') w' \<Longrightarrow>
   cachedAreRegistered st'"
  by (auto simp: resolve_def split: if_splits outcome.splits dest: resolveFactory_cached_state)

text \<open>
  In such a state the resolver does not take an inherited value for a registered
  factory.
\<close>

lemma container_never_takes_inherited:
  "cachedAreRegistered st \<Longrightarrow>
   resolveFactory k st n ra h opt w \<noteq> Stopped (InheritedFactory m)"
  using resolveFactory_keeps [of st k n ra h opt w] by (auto simp: keeps_def)

lemma resolve_never_takes_inherited:
  "cachedAreRegistered st \<Longrightarrow> resolve k st n ra asF w \<noteq> Stopped (InheritedFactory m)"
  using container_never_takes_inherited [of st k n ra "[]" False w m]
  by (auto simp: resolve_def runFactory_not_stopped split: outcome.splits)


section \<open>Termination of the resolver\<close>

lemma runFactory_finishes: "runFactory f ra n h w \<noteq> Stopped OutOfFuel"
  by (rule runFactory_not_stopped)

lemma finishes_case:
  assumes "a \<noteq> Stopped OutOfFuel" and "\<And>x w. a = Returned x w \<Longrightarrow> f x w \<noteq> Stopped OutOfFuel"
  shows "(case a of Stopped s \<Rightarrow> Stopped s | Thrown e w \<Rightarrow> Thrown e w | Returned x w \<Rightarrow> f x w)
           \<noteq> Stopped OutOfFuel"
  using assms by (cases a) auto

lemma resolveFactory_immediate:
  "hasSingleton st n \<or> registered st n = None \<Longrightarrow> resolveFactory k st n ra h opt w \<noteq> Stopped OutOfFuel"
  by (auto simp: resolveFactory.simps)

lemma names_addToHistory:
  "recName ` set (addToHistory h n m) = insert n (recName ` set h)"
  by (cases m) (auto simp: addToHistory_def)

lemma isCyclic_iff: "isCyclic n h d \<longleftrightarrow> d = n \<or> d \<in> recName ` set h"
  by (auto simp: isCyclic_def list_ex_iff)

lemma injectItems_finishes:
  assumes r: "\<And>st n h opt (w :: 'w).
        finite (dom (registered st)) \<Longrightarrow>
        card (dom (registered st) - recName ` set h - {n}) < j \<Longrightarrow>
        resolveFactory j st n ra h opt w \<noteq> Stopped OutOfFuel"
    and fin: "finite (dom (registered st0))"
    and small: "card (dom (registered st0) - recName ` set h) < Suc j"
  shows "keepsState st0 u \<Longrightarrow> injectItems (Suc j) st0 u n ra h items (w :: 'w) \<noteq> Stopped OutOfFuel"
proof (induction items arbitrary: u w)
  case Nil
  show ?case by (simp add: injectItems.simps(1))
next
  case (Cons i items)
  note ku = Cons.prems
  show ?case
  proof (cases "isPlaceholder i")
    case True
    show ?thesis
      unfolding injectItems_placeholder [OF True]
      by (rule finishes_case [OF Cons.IH [OF ku]]) simp
  next
    case False
    show ?thesis
    proof (cases "isCyclic n h (name i) \<and> \<not> hasSingleton st0 (name i)")
      case True
      then show ?thesis
        using False by (simp add: injectItems.simps(2))
    next
      case nc: False
      have call: "resolveFactory j u (name i) ra h (isOptional i) w \<noteq> Stopped OutOfFuel"
      proof (cases "hasSingleton u (name i) \<or> registered u (name i) = None")
        case True
        then show ?thesis by (rule resolveFactory_immediate)
      next
        case reg: False
        have same: "registered u = registered st0"
          using ku by (simp add: keepsState_def)
        have "\<not> hasSingleton st0 (name i)"
          using reg ku by (auto simp: keepsState_def)
        then have fresh: "name i \<notin> recName ` set h"
          using nc by (auto simp: isCyclic_iff)
        have "name i \<in> dom (registered st0) - recName ` set h"
          using reg fresh same by auto
        then have "card (dom (registered st0) - recName ` set h - {name i})
            < card (dom (registered st0) - recName ` set h)"
          using fin by (intro card_Diff1_less) auto
        then have "card (dom (registered u) - recName ` set h - {name i}) < j"
          using small same by simp
        moreover have "finite (dom (registered u))"
          using fin same by simp
        ultimately show ?thesis by (rule r [rotated])
      qed
      have rest: "\<And>x (w1 :: 'w) (w1' :: 'w).
          resolveFactory j u (name i) ra h (isOptional i) w = Returned x w1 \<Longrightarrow>
          injectItems (Suc j) st0 (resolvedState x) n ra h items w1' \<noteq> Stopped OutOfFuel"
      proof -
        fix x and w1 w1' :: 'w
        assume "resolveFactory j u (name i) ra h (isOptional i) w = Returned x w1"
        then have "keepsState u (resolvedState x)"
          by (rule resolveFactory_keeps_state)
        then have "keepsState st0 (resolvedState x)"
          using ku keepsState_trans by blast
        then show "injectItems (Suc j) st0 (resolvedState x) n ra h items w1' \<noteq> Stopped OutOfFuel"
          by (rule Cons.IH)
      qed
      show ?thesis
      proof (cases "asFactory i")
        case True
        show ?thesis
          unfolding injectItems_as_factory [OF False nc True]
        proof (rule finishes_case [OF call])
          fix x and w1 :: 'w
          assume e: "resolveFactory j u (name i) ra h (isOptional i) w = Returned x w1"
          show "(case injectItems (Suc j) st0 (resolvedState x) n ra h items w1 of
                   Stopped s \<Rightarrow> Stopped s
                 | Thrown e w2 \<Rightarrow> Thrown e w2
                 | Returned deps w2 \<Rightarrow>
                     Returned (Bound (asArgument (resolvedFactory x)) # fst deps, snd deps) w2)
                \<noteq> Stopped OutOfFuel"
            by (rule finishes_case [OF rest [OF e]]) simp
        qed
      next
        case af: False
        show ?thesis
          unfolding injectItems_as_value [OF False nc af]
        proof (rule finishes_case [OF call])
          fix x and w1 :: 'w
          assume e: "resolveFactory j u (name i) ra h (isOptional i) w = Returned x w1"
          show "(case runFactory (resolvedFactory x) ra (name i) h w1 of
                   Stopped s \<Rightarrow> Stopped s
                 | Thrown e w2 \<Rightarrow> Thrown e w2
                 | Returned v w2 \<Rightarrow>
                     (case injectItems (Suc j) st0 (resolvedState x) n ra h items w2 of
                        Stopped s \<Rightarrow> Stopped s
                      | Thrown e w3 \<Rightarrow> Thrown e w3
                      | Returned deps w3 \<Rightarrow>
                          Returned (Bound (ArgValue v) # fst deps, snd deps) w3))
                \<noteq> Stopped OutOfFuel"
          proof (rule finishes_case [OF runFactory_finishes])
            fix v and w2 :: 'w
            show "(case injectItems (Suc j) st0 (resolvedState x) n ra h items w2 of
                        Stopped s \<Rightarrow> Stopped s
                      | Thrown e w3 \<Rightarrow> Thrown e w3
                      | Returned deps w3 \<Rightarrow>
                          Returned (Bound (ArgValue v) # fst deps, snd deps) w3)
                \<noteq> Stopped OutOfFuel"
              by (rule finishes_case [OF rest [OF e]]) simp
          qed
        qed
      qed
    qed
  qed
qed


lemma dependencyInjectFactory_finishes:
  assumes "\<And>items. injectItems k st st n ra h items (w :: 'w) \<noteq> Stopped OutOfFuel"
  shows "dependencyInjectFactory k st f n ra h w \<noteq> Stopped OutOfFuel"
proof (cases "inject f")
  case None
  then show ?thesis by (simp add: dependencyInjectFactory.simps)
next
  case (Some items)
  show ?thesis
  proof (cases items)
    case Nil
    then show ?thesis using Some by (simp add: dependencyInjectFactory.simps)
  next
    case (Cons a list)
    show ?thesis
      using Some Cons assms [of "a # list"]
      by (cases "injectItems k st st n ra h (a # list) w")
         (auto simp: dependencyInjectFactory.simps)
  qed
qed

lemma resolveFactory_finishes_step:
  assumes dep: "\<And>f. registered st n = Some f \<Longrightarrow>
      dependencyInjectFactory k st f n ra (addToHistory h n (factoryMeta f)) (w :: 'w) \<noteq> Stopped OutOfFuel"
  shows "resolveFactory k st n ra h opt w \<noteq> Stopped OutOfFuel"
proof (cases "hasSingleton st n \<or> registered st n = None")
  case True
  then show ?thesis by (rule resolveFactory_immediate)
next
  case False
  then obtain f where f: "registered st n = Some f" and c: "\<not> hasSingleton st n"
    by auto
  show ?thesis
    unfolding resolveFactory_registered [OF c f]
  proof (rule finishes_case [OF dep [OF f]])
    fix x :: "'w decoratedFactory \<times> 'w injectorState" and w' :: 'w
    show "(if singleton (fst x) then
             (case runFactory (fst x) ra n (addToHistory h n (factoryMeta f)) w' of
                Stopped s \<Rightarrow> Stopped s
              | Thrown e w'' \<Rightarrow> Thrown e w''
              | Returned singletonInstance w'' \<Rightarrow>
                  Returned
                    \<lparr>resolvedFactory =
                       resolveSingletonAsFactory
                         ((snd x)\<lparr>singletons := (singletons (snd x))(n \<mapsto> singletonInstance)\<rparr>) n,
                     resolvedHistory = addToHistory h n (factoryMeta f),
                     resolvedState =
                       (snd x)\<lparr>singletons := (singletons (snd x))(n \<mapsto> singletonInstance)\<rparr>\<rparr> w'')
           else
             Returned
               \<lparr>resolvedFactory = fst x,
                resolvedHistory = addToHistory h n (factoryMeta f),
                resolvedState = st\<rparr> w') \<noteq> Stopped OutOfFuel"
      using runFactory_finishes [of "fst x" ra n "addToHistory h n (factoryMeta f)" w']
      by (cases "runFactory (fst x) ra n (addToHistory h n (factoryMeta f)) w'") simp_all
  qed
qed

lemma resolveFactory_finishes:
  "finite (dom (registered st)) \<Longrightarrow>
   card (dom (registered st) - recName ` set h - {n}) < k \<Longrightarrow>
   resolveFactory k st n ra h opt (w :: 'w) \<noteq> Stopped OutOfFuel"
proof (induction k arbitrary: st n h opt w)
  case 0
  then show ?case by simp
next
  case (Suc j)
  show ?case
  proof (rule resolveFactory_finishes_step, rule dependencyInjectFactory_finishes)
    fix f items
    assume "registered st n = Some f"
    have "dom (registered st) - insert n (recName ` set h)
        = dom (registered st) - recName ` set h - {n}"
      by auto
    then have "card (dom (registered st) - recName ` set (addToHistory h n (factoryMeta f)))
        < Suc j"
      using Suc.prems(2) by (simp add: names_addToHistory)
    then have small:
      "card (dom (registered st) - recName ` set (addToHistory h n (factoryMeta f))) < Suc j" .
    show "injectItems (Suc j) st st n ra (addToHistory h n (factoryMeta f)) items w
        \<noteq> Stopped OutOfFuel"
    proof (rule injectItems_finishes)
      fix st' :: "'w injectorState" and n' and h' :: history and opt' and w' :: 'w
      assume "finite (dom (registered st'))"
        and "card (dom (registered st') - recName ` set h' - {n'}) < j"
      then show "resolveFactory j st' n' ra h' opt' w' \<noteq> Stopped OutOfFuel"
        by (rule Suc.IH)
    next
      show "finite (dom (registered st))" by (rule Suc.prems(1))
    next
      show "card (dom (registered st) - recName ` set (addToHistory h n (factoryMeta f))) < Suc j"
        by (rule small)
    next
      show "keepsState st st" by (rule keepsState_refl)
    qed
  qed
qed

text \<open>
  The resolver returns or throws: for a registry of finitely many names, a depth budget
  above their number is never used up.
\<close>

lemma resolveFactory_terminates:
  assumes "finite (dom (registered st))"
  shows "resolveFactory (Suc (card (dom (registered st)))) st n ra h opt w \<noteq> Stopped OutOfFuel"
proof -
  have "card (dom (registered st) - recName ` set h - {n}) \<le> card (dom (registered st))"
    using assms by (intro card_mono) auto
  then have "card (dom (registered st) - recName ` set h - {n}) < Suc (card (dom (registered st)))"
    by simp
  with assms show ?thesis by (rule resolveFactory_finishes)
qed

lemma resolve_terminates:
  assumes "finite (dom (registered st))"
  shows "resolve (Suc (card (dom (registered st)))) st n ra asF w \<noteq> Stopped OutOfFuel"
proof (cases "n = []")
  case True
  then show ?thesis by (simp add: resolve_def)
next
  case False
  show ?thesis
  proof (cases "resolveFactory (Suc (card (dom (registered st)))) st n ra [] False w")
    case (Returned r w')
    then show ?thesis
      using False runFactory_finishes [of "resolvedFactory r" ra n "resolvedHistory r" w']
      by (cases "runFactory (resolvedFactory r) ra n (resolvedHistory r) w'")
         (simp_all add: resolve_def)
  next
    case (Thrown e w')
    then show ?thesis using False by (simp add: resolve_def)
  next
    case (Stopped s)
    then show ?thesis
      using False resolveFactory_terminates [OF assms, of n ra "[]" False w]
      by (simp add: resolve_def)
  qed
qed

section \<open>Properties of the injection parser\<close>

lemma splitOn_not_empty: "splitOn sep s \<noteq> []"
  by (induction s) (auto split: list.splits)

















text \<open>
  Where a parameter has a default value that holds a comma, the number expected is not
  the number of the parameters: the text up to the first \<open>)\<close> is split at its commas.
  For \<open>function f(a, b = [1, 2])\<close> an explicit list of two entries fails, and one of
  three entries is accepted.
\<close>

lemma default_value_commas_are_counted:
  "parseFactoryInject (defaultFunction (InjectArray [ItemString ''a'', ItemString ''b''])) ''f'' []
     = Inl (CountMismatch 2 ''f'' 3 [traceRecord ''f''])"
  "parseFactoryInject
     (defaultFunction (InjectArray [ItemString ''a'', ItemString ''b'', ItemString ''c''])) ''f'' []
     = Inr [request ''a'', request ''b'', request ''c'']"
  by (simp_all add: parse_defs defaultFunction_def addToHistory_def functionMeta_def orElse_def
      traceRecord_def request_def)

section \<open>Properties of registration\<close>

lemma registerFactory_untraced:
  "skipTraceErrors opts \<or> metaSkipTraceErrors (meta st) \<Longrightarrow>
   registerFactory st n f opts =
     ([], case parseFactoryInject (stampFactory st f opts) n
                 (addToHistory [] n (functionMeta (stampFactory st f opts))) of
            Inl e \<Rightarrow> Inl e
          | Inr requests \<Rightarrow>
              Inr (st\<lparr>registered :=
                        (registered st)(n \<mapsto> decorated (stampFactory st f opts) requests)\<rparr>))"
  by (auto simp: registerFactory_def Let_def split: sum.splits)

lemma registerFactory_traced:
  "\<not> skipTraceErrors opts \<Longrightarrow> \<not> metaSkipTraceErrors (meta st) \<Longrightarrow>
   registerFactory st n f opts =
     (if truthy (fnFilename (stampFactory st f opts)) then [] else [NoFilenameWarning n],
      if \<not> truthy (fnRegisterSourceFile (stampFactory st f opts))
      then Inl (NoRegisterSource n (addToHistory [] n (functionMeta (stampFactory st f opts))))
      else (case parseFactoryInject (stampFactory st f opts) n
                   (addToHistory [] n (functionMeta (stampFactory st f opts))) of
              Inl e \<Rightarrow> Inl e
            | Inr requests \<Rightarrow>
                Inr (st\<lparr>registered :=
                          (registered st)(n \<mapsto> decorated (stampFactory st f opts) requests)\<rparr>)))"
  by (auto simp: registerFactory_def validateFactory_def Let_def split: sum.splits)

lemma stamped_source:
  "fnRegisterSourceFile (stampFactory st f opts) =
     (if truthy (optRegisterSourceFile opts) then optRegisterSourceFile opts
      else if truthy (metaRegisterSourceFile (meta st)) then metaRegisterSourceFile (meta st)
      else VUndefined)"
  by (simp add: stampFactory_def)

lemma stamped_source_truthy:
  "truthy (fnRegisterSourceFile (stampFactory st f opts)) =
     (truthy (optRegisterSourceFile opts) \<or> truthy (metaRegisterSourceFile (meta st)))"
  by (simp add: stampFactory_def)

text \<open>
  Claim C8. The \<open>$$registerSourceFile\<close> stamped on the factory is
  \<open>options.registerSourceFile\<close> if that is truthy, else the container's label if that is
  truthy, else \<open>undefined\<close>; the factory that is stored in the registry carries it.
  With tracing on (neither the option nor the container's flag skips it) and neither
  source truthy, registration throws the no-register-source error, and no state is
  returned. In every other case registration goes on to parse the function, whether it
  has a \<open>$filename\<close> or not: it throws what the parser throws, or returns the state
  in which the function is registered under the name. With tracing on a missing
  \<open>$filename\<close> is logged, and nothing else is logged.
\<close>

theorem register_source_and_tracing:
  "fnRegisterSourceFile (stampFactory st f opts) =
     (if truthy (optRegisterSourceFile opts) then optRegisterSourceFile opts
      else if truthy (metaRegisterSourceFile (meta st)) then metaRegisterSourceFile (meta st)
      else VUndefined) \<and>
   (\<forall>requests.
      registerSourceFile (decorated (stampFactory st f opts) requests)
        = fnRegisterSourceFile (stampFactory st f opts)) \<and>
   (\<not> skipTraceErrors opts \<and> \<not> metaSkipTraceErrors (meta st) \<and>
    \<not> truthy (optRegisterSourceFile opts) \<and> \<not> truthy (metaRegisterSourceFile (meta st)) \<longrightarrow>
      snd (registerFactory st n f opts)
        = Inl (NoRegisterSource n (addToHistory [] n (functionMeta (stampFactory st f opts))))) \<and>
   (skipTraceErrors opts \<or> metaSkipTraceErrors (meta st) \<or>
    truthy (optRegisterSourceFile opts) \<or> truthy (metaRegisterSourceFile (meta st)) \<longrightarrow>
      snd (registerFactory st n f opts) =
        (case parseFactoryInject (stampFactory st f opts) n
                (addToHistory [] n (functionMeta (stampFactory st f opts))) of
           Inl e \<Rightarrow> Inl e
         | Inr requests \<Rightarrow>
             Inr (st\<lparr>registered :=
                       (registered st)(n \<mapsto> decorated (stampFactory st f opts) requests)\<rparr>))) \<and>
   fst (registerFactory st n f opts) =
     (if \<not> skipTraceErrors opts \<and> \<not> metaSkipTraceErrors (meta st) \<and>
         \<not> truthy (fnFilename (stampFactory st f opts))
      then [NoFilenameWarning n] else [])"
proof (intro conjI allI impI)
  show "fnRegisterSourceFile (stampFactory st f opts) =
     (if truthy (optRegisterSourceFile opts) then optRegisterSourceFile opts
      else if truthy (metaRegisterSourceFile (meta st)) then metaRegisterSourceFile (meta st)
      else VUndefined)"
    by (rule stamped_source)
next
  fix requests
  show "registerSourceFile (decorated (stampFactory st f opts) requests)
      = fnRegisterSourceFile (stampFactory st f opts)"
    by (simp add: decorated_def)
next
  assume "\<not> skipTraceErrors opts \<and> \<not> metaSkipTraceErrors (meta st) \<and>
    \<not> truthy (optRegisterSourceFile opts) \<and> \<not> truthy (metaRegisterSourceFile (meta st))"
  then show "snd (registerFactory st n f opts)
      = Inl (NoRegisterSource n (addToHistory [] n (functionMeta (stampFactory st f opts))))"
    by (simp add: registerFactory_traced stamped_source_truthy)
next
  assume a: "skipTraceErrors opts \<or> metaSkipTraceErrors (meta st) \<or>
    truthy (optRegisterSourceFile opts) \<or> truthy (metaRegisterSourceFile (meta st))"
  show "snd (registerFactory st n f opts) =
        (case parseFactoryInject (stampFactory st f opts) n
                (addToHistory [] n (functionMeta (stampFactory st f opts))) of
           Inl e \<Rightarrow> Inl e
         | Inr requests \<Rightarrow>
             Inr (st\<lparr>registered :=
                       (registered st)(n \<mapsto> decorated (stampFactory st f opts) requests)\<rparr>))"
  proof (cases "skipTraceErrors opts \<or> metaSkipTraceErrors (meta st)")
    case True
    then show ?thesis by (simp add: registerFactory_untraced)
  next
    case False
    then have "truthy (fnRegisterSourceFile (stampFactory st f opts))"
      using a by (simp add: stamped_source_truthy)
    then show ?thesis using False by (simp add: registerFactory_traced)
  qed
next
  show "fst (registerFactory st n f opts) =
     (if \<not> skipTraceErrors opts \<and> \<not> metaSkipTraceErrors (meta st) \<and>
         \<not> truthy (fnFilename (stampFactory st f opts))
      then [NoFilenameWarning n] else [])"
    by (cases "skipTraceErrors opts \<or> metaSkipTraceErrors (meta st)")
       (auto simp: registerFactory_untraced registerFactory_traced)
qed

text \<open>
  Witness for C8: the function \<open>zeroFactory\<close>, which has no \<open>$filename\<close>,
  registered in the empty state with tracing on. With no source it is refused; with the
  source \<open>/app/main.js\<close> given as an option the missing \<open>$filename\<close> is logged and
  the function is registered, carrying the source.
\<close>

theorem register_source_and_tracing_witness:
  "registerFactory emptyState ''zero'' zeroFunction noOptions
     = ([NoFilenameWarning ''zero''], Inl (NoRegisterSource ''zero'' [traceRecord ''zero''])) \<and>
   registerFactory emptyState ''zero'' zeroFunction sourceGiven
     = ([NoFilenameWarning ''zero''], Inr sourceContainer) \<and>
   map_option registerSourceFile (registered sourceContainer ''zero'')
     = Some (VStr ''/app/main.js'') \<and>
   map_option filename (registered sourceContainer ''zero'') = Some VUndefined"
proof -
  from register_source_and_tracing [of emptyState zeroFunction noOptions "''zero''"]
  have refused: "registerFactory emptyState ''zero'' zeroFunction noOptions
     = ([NoFilenameWarning ''zero''], Inl (NoRegisterSource ''zero'' [traceRecord ''zero'']))"
    by (simp add: prod_eq_iff noOptions_def emptyState_def stampFactory_def zeroFunction_def
        countingSingleton_def addToHistory_def functionMeta_def orElse_def traceRecord_def)
  from register_source_and_tracing [of emptyState zeroFunction sourceGiven "''zero''"]
  have stored: "registerFactory emptyState ''zero'' zeroFunction sourceGiven
     = ([NoFilenameWarning ''zero''], Inr sourceContainer)"
    by (simp add: prod_eq_iff sourceGiven_def noOptions_def emptyState_def stampFactory_def
        zeroFunction_def countingSingleton_def sourceContainer_def decorated_def parse_defs
        addToHistory_def functionMeta_def orElse_def)
  show ?thesis
    using refused stored
    by (simp add: sourceContainer_def decorated_def zeroFunction_def countingSingleton_def)
qed

section \<open>Properties of the container\<close>

lemma itemFactory_parsed:
  "parseFactoryInject (stampFactory st (itemFactory v) opts) n h = Inr []"
  by (simp add: parse_defs stampFactory_def itemFactory_def itemFactorySource_def)

lemma register_value:
  assumes "n \<noteq> []"
    and "skipTraceErrors (safeOptions options) \<or> metaSkipTraceErrors (meta st) \<or>
         truthy (optRegisterSourceFile (safeOptions options)) \<or>
         truthy (metaRegisterSourceFile (meta st))"
  shows "snd (register st n (NotFunction v) options) =
     Inr (st\<lparr>registered :=
              (registered st)
                (n \<mapsto> decorated (stampFactory st (itemFactory v) (safeOptions options)) [])\<rparr>)"
proof (cases "skipTraceErrors (safeOptions options) \<or> metaSkipTraceErrors (meta st)")
  case True
  then show ?thesis
    using assms(1) by (simp add: register_def registerFactory_untraced itemFactory_parsed)
next
  case False
  then have "truthy (fnRegisterSourceFile (stampFactory st (itemFactory v) (safeOptions options)))"
    using assms(2) by (simp add: stamped_source_truthy)
  then show ?thesis
    using assms(1) False by (simp add: register_def registerFactory_traced itemFactory_parsed)
qed

lemma resolve_registered_value:
  assumes "n \<noteq> []" and "\<not> hasSingleton st n"
  shows "resolve fuel
           (st\<lparr>registered := (registered st)(n \<mapsto> decorated (stampFactory st (itemFactory v) opts) [])\<rparr>)
           n ra False w =
         Returned
           (AsValue v,
            st\<lparr>registered := (registered st)(n \<mapsto> decorated (stampFactory st (itemFactory v) opts) []),
               singletons := (singletons st)(n \<mapsto> v)\<rparr>) w"
  using assms
  by (simp add: resolve_def resolveFactory.simps dependencyInjectFactory.simps hasSingleton_def
      singletonValue_def readProperty_def runFactory_def resolveSingletonAsFactory_def
      decorated_def stampFactory_def itemFactory_def)

lemma not_cached:
  "singletons st n = None \<Longrightarrow> n \<notin> set objectPrototypeNames \<Longrightarrow> \<not> hasSingleton st n"
  by (simp add: hasSingleton_def singletonValue_def readProperty_def inherited_def)

text \<open>
  Counterexample for C9. In a container as \<open>factoryDiFactory\<close> returns it (tracing
  on, no register source set) \<open>register('test', 'testString')\<close> throws, and resolving
  the name fails. And where \<open>1\<close> is cached for \<open>z\<close>, registering \<open>2\<close> as \<open>z\<close>
  succeeds and resolving \<open>z\<close> returns \<open>1\<close>.
\<close>

theorem default_container_refuses_value:
  "factoryDiFactory libraryFile = ([], Inr freshContainer) \<and>
   register freshContainer ''test'' (NotFunction (VStr ''testString'')) None
     = ([NoFilenameWarning ''test''], Inl (NoRegisterSource ''test'' [traceRecord ''test''])) \<and>
   resolve 1 freshContainer ''test'' None False 0
     = Thrown (NotRegistered ''test'' [traceRecord ''test'']) 0 \<and>
   register (valueCached (VNum 1)) ''z'' (NotFunction (VNum 2)) (Some skipTrace)
     = ([], Inr staleContainer) \<and>
   resolve 1 staleContainer ''z'' None False 0 = Returned (AsValue (VNum 1), staleContainer) 0"
  by (simp add: factoryDiFactory_def register_defs parse_defs resolve_defs itemFactory_def
      itemFactorySource_def libraryFile_def freshContainer_def valueCached_def
      valueContainer_def staleContainer_def)

text \<open>
  Claim C9, amended. Let the name be non-empty and not a name of \<open>Object.prototype\<close>,
  let the value not be a function, let tracing be skipped or a register source be
  resolvable, and let no value be cached for the name. Then registering the value stores
  a wrapper that is a singleton without dependencies and carries the \<open>$filename\<close> of
  the value (unless \<open>options.filename\<close> replaces it), and resolving the name in the
  new state returns exactly the value, which is then cached.
\<close>

theorem registered_value_resolves_to_itself:
  "n \<noteq> [] \<Longrightarrow> n \<notin> set objectPrototypeNames \<Longrightarrow> \<not> isFunction v \<Longrightarrow>
   skipTraceErrors (safeOptions options) \<or> metaSkipTraceErrors (meta st) \<or>
     truthy (optRegisterSourceFile (safeOptions options)) \<or>
     truthy (metaRegisterSourceFile (meta st)) \<Longrightarrow>
   singletons st n = None \<Longrightarrow>
   (\<exists>wrapper.
      snd (register st n (NotFunction v) options)
        = Inr (st\<lparr>registered := (registered st)(n \<mapsto> wrapper)\<rparr>) \<and>
      singleton wrapper \<and> inject wrapper = Some [] \<and>
      filename wrapper =
        (if truthy (optFilename (safeOptions options)) then optFilename (safeOptions options)
         else if truthy v \<and> truthy (filenameOf v) then filenameOf v
         else VUndefined) \<and>
      resolve fuel (st\<lparr>registered := (registered st)(n \<mapsto> wrapper)\<rparr>) n ra False w
        = Returned
            (AsValue v,
             st\<lparr>registered := (registered st)(n \<mapsto> wrapper),
                singletons := (singletons st)(n \<mapsto> v)\<rparr>) w)"
proof -
  assume a: "n \<noteq> []" "n \<notin> set objectPrototypeNames"
    "skipTraceErrors (safeOptions options) \<or> metaSkipTraceErrors (meta st) \<or>
     truthy (optRegisterSourceFile (safeOptions options)) \<or>
     truthy (metaRegisterSourceFile (meta st))"
    "singletons st n = None"
  let ?wrapper = "decorated (stampFactory st (itemFactory v) (safeOptions options)) []"
  have c: "\<not> hasSingleton st n"
    using a(4,2) by (rule not_cached)
  have "snd (register st n (NotFunction v) options)
        = Inr (st\<lparr>registered := (registered st)(n \<mapsto> ?wrapper)\<rparr>)"
    using a(1,3) by (rule register_value)
  moreover have "singleton ?wrapper \<and> inject ?wrapper = Some [] \<and>
      filename ?wrapper =
        (if truthy (optFilename (safeOptions options)) then optFilename (safeOptions options)
         else if truthy v \<and> truthy (filenameOf v) then filenameOf v
         else VUndefined)"
    by (simp add: decorated_def stampFactory_def itemFactory_def)
  moreover have "resolve fuel (st\<lparr>registered := (registered st)(n \<mapsto> ?wrapper)\<rparr>) n ra False w
        = Returned
            (AsValue v,
             st\<lparr>registered := (registered st)(n \<mapsto> ?wrapper),
                singletons := (singletons st)(n \<mapsto> v)\<rparr>) w"
    using a(1) c by (rule resolve_registered_value)
  ultimately show ?thesis by blast
qed

text \<open>
  Witness for C9 as amended: the falsy value \<open>0\<close> registered as \<open>z\<close> in the empty
  state.
\<close>

theorem registered_value_resolves_to_itself_witness:
  "''z'' \<noteq> [] \<and> ''z'' \<notin> set objectPrototypeNames \<and> \<not> isFunction (VNum 0) \<and>
   skipTraceErrors (safeOptions (Some skipTrace)) \<and>
   singletons (emptyState :: nat injectorState) ''z'' = None \<and>
   (\<exists>wrapper.
      snd (register (emptyState :: nat injectorState) ''z'' (NotFunction (VNum 0)) (Some skipTrace))
        = Inr (emptyState\<lparr>registered := [''z'' \<mapsto> wrapper]\<rparr>) \<and>
      resolve 0 (emptyState\<lparr>registered := [''z'' \<mapsto> wrapper]\<rparr>) ''z'' None False 0
        = Returned
            (AsValue (VNum 0),
             emptyState\<lparr>registered := [''z'' \<mapsto> wrapper], singletons := [''z'' \<mapsto> VNum 0]\<rparr>) 0)"
proof -
  have h1: "''z'' \<noteq> []" by simp
  have h2: "''z'' \<notin> set objectPrototypeNames" by (simp add: objectPrototypeNames_def)
  have h3: "\<not> isFunction (VNum 0)" by simp
  have h4: "skipTraceErrors (safeOptions (Some skipTrace)) \<or>
      metaSkipTraceErrors (meta (emptyState :: nat injectorState)) \<or>
      truthy (optRegisterSourceFile (safeOptions (Some skipTrace))) \<or>
      truthy (metaRegisterSourceFile (meta (emptyState :: nat injectorState)))"
    by (simp add: safeOptions_def skipTrace_def)
  have h5: "singletons (emptyState :: nat injectorState) ''z'' = None"
    by (simp add: emptyState_def)
  have e: "registered (emptyState :: nat injectorState) = Map.empty"
    "singletons (emptyState :: nat injectorState) = Map.empty"
    by (simp_all add: emptyState_def)
  from registered_value_resolves_to_itself [OF h1 h2 h3 h4 h5, of 0 None 0]
  have "\<exists>wrapper.
      snd (register (emptyState :: nat injectorState) ''z'' (NotFunction (VNum 0)) (Some skipTrace))
        = Inr (emptyState\<lparr>registered := [''z'' \<mapsto> wrapper]\<rparr>) \<and>
      resolve 0 (emptyState\<lparr>registered := [''z'' \<mapsto> wrapper]\<rparr>) ''z'' None False 0
        = Returned
            (AsValue (VNum 0),
             emptyState\<lparr>registered := [''z'' \<mapsto> wrapper], singletons := [''z'' \<mapsto> VNum 0]\<rparr>) 0"
    unfolding e by blast
  with h1 h2 h5 show ?thesis by (simp add: safeOptions_def skipTrace_def)
qed

text \<open>
  A value registered under a name of \<open>Object.prototype\<close> is not what resolving the
  name returns: the cache test finds the built-in first.
\<close>

lemma value_under_inherited_name:
  "snd (register emptyState ''constructor'' (NotFunction (VNum 5)) (Some skipTrace))
     = Inr (emptyState\<lparr>registered := [''constructor'' \<mapsto> decorated (itemFactory (VNum 5)) []]\<rparr>)"
  "resolve fuel
     (emptyState\<lparr>registered := [''constructor'' \<mapsto> decorated (itemFactory (VNum 5)) []]\<rparr>)
     ''constructor'' None False (0 :: nat)
     = Returned
         (AsValue (VBuiltin ''constructor''),
          emptyState\<lparr>registered := [''constructor'' \<mapsto> decorated (itemFactory (VNum 5)) []]\<rparr>) 0"
  by (simp_all add: register_defs parse_defs resolve_defs itemFactory_def itemFactorySource_def)


section \<open>The scenarios of index.test.js\<close>

text \<open>
  The scenarios of the test file of the repository, evaluated: each gives the value or the
  error that the test expects. What a test checks by object identity is not expressed
  here.
\<close>

lemmas test_defs = testContainer_def setSkipTraceErrors_def freshContainer_def
  plainFunction_def resolveIn_def libraryFile_def register_defs parse_defs resolve_defs
  run_defs injectItems.simps secondArgument_def numeral_3_eq_3 asArgument_def

lemma test_registered_string:
  "resolveIn (registerAll testContainer [(''test'', NotFunction (VStr ''testString''))]) ''test'' None
     = Some (Inr (VStr ''testString''))"
  by (simp add: test_defs itemFactory_def itemFactorySource_def)

lemma test_empty_names:
  "registerAll testContainer [([], IsFunction cFactory)] = Inl NoItemName"
  "resolveIn (Inr testContainer) [] None = Some (Inl NoItemName)"
  by (simp_all add: test_defs cFactory_def)

lemma test_placeholder:
  "resolveIn (registerAll testContainer [(''test'', IsFunction testFactory)]) ''test''
         (Some [''test'' \<mapsto> [''resolveArg'' \<mapsto> VStr ''meow'']])
       = Some (Inr (VObj [(''resolveArg'', VStr ''meow''), (''test'', VBool True)]))"
  by (simp add: test_defs testFactory_def)

lemma test_placeholder_common:
  "resolveIn (registerAll testContainer [(''test'', IsFunction testFactory)]) ''test''
         (Some [''common'' \<mapsto> [''resolveArg'' \<mapsto> VStr ''meow'']])
       = Some (Inr (VObj [(''resolveArg'', VStr ''meow''), (''test'', VBool True)]))"
  by (simp add: test_defs testFactory_def)

lemma test_placeholder_wrong_name:
  "\<exists>h. resolveIn (registerAll testContainer [(''test'', IsFunction testFactory)]) ''test''
         (Some [''wrongName'' \<mapsto> [''resolveArg'' \<mapsto> VStr ''meow'']])
       = Some (Inl (MissingPlaceholder ''test'' ''resolveArg'' h))"
  by (simp add: test_defs testFactory_def)

lemma test_sub_dependency:
  "resolveIn (registerAll testContainer
       [(''c'', IsFunction cFactory), (''b'', IsFunction bFactory),
        (''a'', IsFunction (aFactory (InjectArray [ItemString ''c''])))]) ''a'' None = Some (Inr cOutput)"
  "resolveIn (registerAll testContainer
       [(''c'', IsFunction cFactory), (''b'', IsFunction bFactory),
        (''a'', IsFunction (aFactory (InjectArray [ItemString ''c''])))]) ''b'' None = Some (Inr cOutput)"
  by (simp_all add: test_defs aFactory_def bFactory_def cFactory_def)

lemma test_non_array_inject:
  "\<exists>h. registerAll testContainer [(''a'', IsFunction (aFactory InjectNonArray))]
     = Inl (InjectError NonArrayInject ''a'' h)"
  by (simp add: test_defs aFactory_def)

lemma test_dependency_not_found:
  "\<exists>h. resolveIn (registerAll testContainer
       [(''a'', IsFunction (aFactory (InjectArray [ItemString ''c'']))), (''b'', IsFunction bFactory)])
       ''a'' None = Some (Inl (NotRegistered ''c'' h))"
  "\<exists>h. resolveIn (registerAll testContainer
       [(''a'', IsFunction (aFactory (InjectArray [ItemString ''c'']))), (''b'', IsFunction bFactory)])
       ''b'' None = Some (Inl (NotRegistered ''c'' h))"
  by (simp_all add: test_defs aFactory_def bFactory_def)

lemma test_as_factory:
  "resolveIn (registerAll testContainer
       [(''c'', IsFunction cFactory), (''a'', IsFunction callingFactory)]) ''a'' None = Some (Inr cOutput)"
  by (simp add: test_defs callingFactory_def cFactory_def)

lemma test_extra_arguments:
  "resolveIn (registerAll testContainer
       [(''a'', IsFunction (aFactory (InjectArray [ItemString ''c'']))), (''b'', IsFunction bFactory),
        (''c'', IsFunction (zFactory InjectFalsy PlaceholdersFalsy))]) ''a''
       (Some [''c'' \<mapsto> [''z'' \<mapsto> VStr ''zSuccess'']]) = Some (Inr (VStr ''zSuccess''))"
  "resolveIn (registerAll testContainer
       [(''a'', IsFunction (aFactory (InjectArray [ItemString ''c'']))), (''b'', IsFunction bFactory),
        (''c'', IsFunction (zFactory InjectFalsy PlaceholdersFalsy))]) ''b''
       (Some [''c'' \<mapsto> [''z'' \<mapsto> VStr ''zSuccess'']]) = Some (Inr (VStr ''zSuccess''))"
  by (simp_all add: test_defs aFactory_def bFactory_def zFactory_def)

lemma test_declared_placeholder:
  "resolveIn (registerAll testContainer
       [(''a'', IsFunction (aFactory (InjectArray [ItemString ''c'']))),
        (''c'', IsFunction (zFactory InjectTrue (PlaceholdersArray [Some ''z''])))]) ''a''
       (Some [''c'' \<mapsto> [''z'' \<mapsto> VStr ''zSuccess'']]) = Some (Inr (VStr ''zSuccess''))"
  by (simp add: test_defs aFactory_def zFactory_def)

lemma test_optional_arguments:
  "resolveIn (registerAll testContainer
       [(''a'', IsFunction (aFactory (InjectArray [ItemString ''c'']))),
        (''b'', IsFunction (aFactory (InjectArray [ItemString ''d'']))),
        (''c'', IsFunction (zFactory InjectTrue (PlaceholdersArray [Some ''z?'']))),
        (''d'', IsFunction dFactory)]) ''a'' None = Some (Inr VUndefined)"
  "resolveIn (registerAll testContainer
       [(''a'', IsFunction (aFactory (InjectArray [ItemString ''c'']))),
        (''b'', IsFunction (aFactory (InjectArray [ItemString ''d'']))),
        (''c'', IsFunction (zFactory InjectTrue (PlaceholdersArray [Some ''z?'']))),
        (''d'', IsFunction dFactory)]) ''b'' None = Some (Inr (VStr ''defaultZ''))"
  by (simp_all add: test_defs aFactory_def zFactory_def dFactory_def)

lemma test_some_optional:
  "resolveIn (registerAll testContainer
       [(''a'', IsFunction (aFactory (InjectArray [ItemString ''c'']))),
        (''c'', IsFunction yzFactory)]) ''a''
       (Some [''c'' \<mapsto> [''z'' \<mapsto> VStr ''zSuccess'']])
     = Some (Inr (VObj [(''y'', VUndefined), (''z'', VStr ''zSuccess'')]))"
  by (simp add: test_defs aFactory_def yzFactory_def)

lemma test_invalid_names:
  "\<exists>h. registerAll testContainer [(''a'', IsFunction (aFactory (InjectArray [ItemOther])))]
     = Inl (InjectError (InvalidInjectIndexes [0]) ''a'' h)"
  by (simp add: test_defs aFactory_def)

lemma test_cycle:
  "\<exists>h. resolveIn (registerAll testContainer
       [(''a'', IsFunction (plainFunction ''function aFactory(b) { return b; }''
                  (InjectArray [ItemString ''b'']) PlaceholdersFalsy firstArgument)),
        (''b'', IsFunction (plainFunction ''function bFactory(a) { return a; }''
                  (InjectArray [ItemString ''a'']) PlaceholdersFalsy firstArgument))]) ''a'' None
     = Some (Inl (CyclicDependency ''a'' h))"
  by (simp add: test_defs)

section \<open>White space and inherited names in the parser\<close>

text \<open>
  White space of more than one byte is removed from a parameter list as the white space
  of ASCII is: here U+00A0 after the comma and U+2003 before the closing parenthesis.
\<close>

lemma wide_white_space_is_removed:
  "removeWhiteSpace (''a,'' @ [CHR 0xC2, CHR 0xA0] @ ''b'' @ [CHR 0xE2, CHR 0x80, CHR 0x83]) = ''a,b''"
  by (simp add: isWhiteSpace_def isWhiteSpace2_def isWhiteSpace3_def)

text \<open>
  With \<open>$inject = true\<close> a parameter is a placeholder where \<open>placeholderArgs[name]\<close>
  is truthy. That holds for a name listed in \<open>$placeholders\<close>, and also for a name of
  \<open>Object.prototype\<close> that is not listed: of \<open>f(toString, z, y)\<close> with
  \<open>$placeholders = ['y?']\<close> the parameters \<open>toString\<close> and \<open>y\<close> are placeholders
  and \<open>z\<close> is a dependency.
\<close>

lemma inherited_parameter_is_placeholder:
  "parseFactoryInject
     (plainFunction ''function f(toString, z, y) { return z; }'' InjectTrue
        (PlaceholdersArray [Some ''y?'']) firstArgument) ''f'' []
   = Inr [\<lparr>name = ''toString'', isOptional = False, asFactory = False, isPlaceholder = True\<rparr>,
          \<lparr>name = ''z'', isOptional = False, asFactory = False, isPlaceholder = False\<rparr>,
          \<lparr>name = ''y'', isOptional = True, asFactory = False, isPlaceholder = True\<rparr>]"
  by (simp add: parse_defs plainFunction_def lookup_defs)

text \<open>
  A placeholder listed as \<open>__proto__?\<close> becomes the prototype of the options: the
  parameter \<open>__proto__\<close> is then an optional placeholder, and a parameter
  \<open>isOptional\<close> reads the \<open>true\<close> of that prototype and is a required
  placeholder.
\<close>

lemma prototype_of_placeholder_options:
  "parseFactoryInject
     (plainFunction ''function f(__proto__, isOptional, z) { return z; }'' InjectTrue
        (PlaceholdersArray [Some ''__proto__?'']) firstArgument) ''f'' []
   = Inr [\<lparr>name = ''__proto__'', isOptional = True, asFactory = False, isPlaceholder = True\<rparr>,
          \<lparr>name = ''isOptional'', isOptional = False, asFactory = False, isPlaceholder = True\<rparr>,
          \<lparr>name = ''z'', isOptional = False, asFactory = False, isPlaceholder = False\<rparr>]"
  by (simp add: parse_defs plainFunction_def lookup_defs)

end
